theory Spec2Isabelle
  imports Main
begin

section \<open>The user domain of divinity: validation and the user service\<close>

text \<open>
  The development embeds \<^verbatim>\<open>src/user.go\<close>: the \<^verbatim>\<open>User\<close> record, \<^verbatim>\<open>validateUser\<close>, and the
  seven operations of \<^verbatim>\<open>UserService\<close> over the \<^verbatim>\<open>UserStore\<close> interface. The store, the
  wall clock (\<^verbatim>\<open>time.Now\<close>), the password hash (\<^verbatim>\<open>bcrypt.GenerateFromPassword\<close>) and
  the logger (\<^verbatim>\<open>slog.Error\<close>) are collaborators outside the service; they are parameters
  of the model, and every call the service makes to the store or the logger is recorded
  in a trace.
\<close>

subsection \<open>Go errors\<close>

text \<open>
  An error value is one made by \<^verbatim>\<open>errors.New\<close>, the sentinel \<^verbatim>\<open>sql.ErrNoRows\<close>, or an error
  that wraps another one under a message of its own (\<^verbatim>\<open>fmt.Errorf("...: %w", err)\<close>).
  \<^verbatim>\<open>Error\<close> is the text \<^verbatim>\<open>err.Error()\<close>; \<^verbatim>\<open>errors_Is\<close> walks the chain of wrapped errors as
  \<^verbatim>\<open>errors.Is\<close> does. The service only ever asks \<^verbatim>\<open>errors.Is(err, sql.ErrNoRows)\<close>.
\<close>

datatype go_error = errors_New string | sql_ErrNoRows | fmt_Errorf string go_error

fun Error :: "go_error \<Rightarrow> string" where
  "Error (errors_New text) = text"
| "Error sql_ErrNoRows = ''sql: no rows in result set''"
| "Error (fmt_Errorf text err) = text"

fun errors_Is :: "go_error \<Rightarrow> go_error \<Rightarrow> bool" where
  "errors_Is (fmt_Errorf text err) target =
     (fmt_Errorf text err = target \<or> errors_Is err target)"
| "errors_Is err target = (err = target)"

subsection \<open>The User record\<close>

text \<open>A \<^verbatim>\<open>time.Time\<close> is an instant, here a number of nanoseconds.\<close>

type_synonym Time = int

record User =
  ID :: string
  FirstName :: string
  LastName :: string
  Email :: string
  Password :: string
  CreatedAt :: Time
  UpdatedAt :: Time

subsection \<open>Regular expressions, as far as \<^verbatim>\<open>validateUser\<close> needs them\<close>

text \<open>
  The pattern of \<^verbatim>\<open>validateUser\<close> uses character classes made of ranges and single
  characters, concatenation, \<^verbatim>\<open>+\<close> and \<^verbatim>\<open>{2,}\<close>, between the anchors \<^verbatim>\<open>^\<close> and \<^verbatim>\<open>$\<close>. Go's
  \<^verbatim>\<open>regexp\<close> matches by automaton, so \<^verbatim>\<open>MatchString\<close> on an anchored pattern says whether
  the whole string belongs to the pattern's language (\<^verbatim>\<open>$\<close> without the \<^verbatim>\<open>m\<close> flag is
  the end of the text). A string is a list of bytes; the classes of the pattern hold
  ASCII characters only, so no byte of a multi-byte UTF-8 character is in any of them.
\<close>

datatype rx = Zero | One | Class "char \<Rightarrow> bool" | Alt rx rx | Seq rx rx | Star rx

definition in_range :: "char \<Rightarrow> char \<Rightarrow> char \<Rightarrow> bool" where
  "in_range lo hi c = ((of_char lo :: nat) \<le> of_char c \<and> (of_char c :: nat) \<le> of_char hi)"

text \<open>A bracket expression \<^verbatim>\<open>[...]\<close> is a list of ranges; a single character is the range
  from itself to itself.\<close>

definition bracket :: "(char \<times> char) list \<Rightarrow> rx" where
  "bracket ranges = Class (\<lambda>c. list_ex (\<lambda>(lo, hi). in_range lo hi c) ranges)"

definition literal :: "char \<Rightarrow> rx" where
  "literal a = Class (\<lambda>c. c = a)"

definition Plus :: "rx \<Rightarrow> rx" where
  "Plus r = Seq r (Star r)"

fun at_least :: "nat \<Rightarrow> rx \<Rightarrow> rx" where
  "at_least 0 r = Star r"
| "at_least (Suc n) r = Seq r (at_least n r)"

fun nullable :: "rx \<Rightarrow> bool" where
  "nullable Zero = False"
| "nullable One = True"
| "nullable (Class p) = False"
| "nullable (Alt r s) = (nullable r \<or> nullable s)"
| "nullable (Seq r s) = (nullable r \<and> nullable s)"
| "nullable (Star r) = True"

fun deriv :: "char \<Rightarrow> rx \<Rightarrow> rx" where
  "deriv c Zero = Zero"
| "deriv c One = Zero"
| "deriv c (Class p) = (if p c then One else Zero)"
| "deriv c (Alt r s) = Alt (deriv c r) (deriv c s)"
| "deriv c (Seq r s) =
     (if nullable r then Alt (Seq (deriv c r) s) (deriv c s) else Seq (deriv c r) s)"
| "deriv c (Star r) = Seq (deriv c r) (Star r)"

definition MatchString :: "rx \<Rightarrow> string \<Rightarrow> bool" where
  "MatchString r s = nullable (fold deriv s r)"

text \<open>The language of a pattern, against which the matcher is proved right.\<close>

definition conc :: "string set \<Rightarrow> string set \<Rightarrow> string set" where
  "conc A B = {xs @ ys | xs ys. xs \<in> A \<and> ys \<in> B}"

inductive_set star :: "string set \<Rightarrow> string set" for A :: "string set" where
  star_empty: "[] \<in> star A"
| star_step: "xs \<in> A \<Longrightarrow> ys \<in> star A \<Longrightarrow> xs @ ys \<in> star A"

fun lang :: "rx \<Rightarrow> string set" where
  "lang Zero = {}"
| "lang One = {[]}"
| "lang (Class p) = {[c] | c. p c}"
| "lang (Alt r s) = lang r \<union> lang s"
| "lang (Seq r s) = conc (lang r) (lang s)"
| "lang (Star r) = star (lang r)"

subsection \<open>\<^verbatim>\<open>validateUser\<close>\<close>

text \<open>\<^verbatim>\<open>^[a-zA-Z0-9._%+-]+@[a-zA-Z0-9.-]+\.[a-zA-Z]{2,}$\<close>\<close>

definition emailRegex :: rx where
  "emailRegex =
     Seq (Plus (bracket [(CHR ''a'', CHR ''z''), (CHR ''A'', CHR ''Z''), (CHR ''0'', CHR ''9''),
                         (CHR ''.'', CHR ''.''), (CHR ''_'', CHR ''_''), (CHR ''%'', CHR ''%''),
                         (CHR ''+'', CHR ''+''), (CHR ''-'', CHR ''-'')]))
    (Seq (literal CHR ''@'')
    (Seq (Plus (bracket [(CHR ''a'', CHR ''z''), (CHR ''A'', CHR ''Z''), (CHR ''0'', CHR ''9''),
                         (CHR ''.'', CHR ''.''), (CHR ''-'', CHR ''-'')]))
    (Seq (literal CHR ''.'')
         (at_least 2 (bracket [(CHR ''a'', CHR ''z''), (CHR ''A'', CHR ''Z'')])))))"

definition validateUser :: "User \<Rightarrow> go_error option" where
  "validateUser user =
     (if Password user = '''' then Some (errors_New ''password is required'')
      else if FirstName user = '''' then Some (errors_New ''first name is required'')
      else if LastName user = '''' then Some (errors_New ''last name is required'')
      else if Email user = '''' then Some (errors_New ''email is required'')
      else if \<not> MatchString emailRegex (Email user)
        then Some (errors_New ''invalid email format'')
      else None)"

subsection \<open>The format of an email, in the words of the specification\<close>

text \<open>
  Section 4.1 of the specification describes the fifth check in words: the email is
  \<^verbatim>\<open>local-part@domain.tld\<close>, where the local part is made of letters, digits and
  \<^verbatim>\<open>. _ % + -\<close>, the domain of letters, digits, \<^verbatim>\<open>.\<close> and \<^verbatim>\<open>-\<close>, and the top-level segment
  of at least two letters. \<^verbatim>\<open>spec_email_format\<close> follows these words (local part and domain are
  not empty); it is compared below with what \<^verbatim>\<open>emailRegex\<close> accepts.
\<close>

definition is_letter :: "char \<Rightarrow> bool" where
  "is_letter c = (c \<in> set ''abcdefghijklmnopqrstuvwxyzABCDEFGHIJKLMNOPQRSTUVWXYZ'')"

definition is_digit :: "char \<Rightarrow> bool" where
  "is_digit c = (c \<in> set ''0123456789'')"

definition local_part_char :: "char \<Rightarrow> bool" where
  "local_part_char c = (is_letter c \<or> is_digit c \<or> c \<in> set ''._%+-'')"

definition domain_char :: "char \<Rightarrow> bool" where
  "domain_char c = (is_letter c \<or> is_digit c \<or> c \<in> set ''.-'')"

definition spec_email_format :: "string \<Rightarrow> bool" where
  "spec_email_format email =
     (\<exists>local_part domain tld.
        email = local_part @ ''@'' @ domain @ ''.'' @ tld \<and>
        local_part \<noteq> [] \<and> list_all local_part_char local_part \<and>
        domain \<noteq> [] \<and> list_all domain_char domain \<and>
        2 \<le> length tld \<and> list_all is_letter tld)"

subsection \<open>The collaborators of the service\<close>

text \<open>
  \<^verbatim>\<open>UserStore\<close> is an interface; the service is written against any implementation of it.
  A store is modelled as a state machine over a state \<^verbatim>\<open>'s\<close> of its own: each method takes
  the state and returns its results and the next state. A lookup returns the Go pair
  \<^verbatim>\<open>(*User, error)\<close>, each half of which may be nil. \<^verbatim>\<open>Create\<close> receives the record by
  pointer and may write to it (\<^verbatim>\<open>UserPostgresStore.Create\<close> scans the new id into
  \<^verbatim>\<open>user.ID\<close>), so it returns the record as it leaves it. The record a lookup returns is a
  value of its own, as in \<^verbatim>\<open>UserPostgresStore\<close> (\<^verbatim>\<open>var user User ... return &user\<close>): the
  store and the service share no other memory. Every method returns (a store that
  panics or blocks is not modelled). The \<^verbatim>\<open>context.Context\<close> argument is handed through
  unchanged and is left out.
\<close>

record 's UserStore =
  store_Create :: "'s \<Rightarrow> User \<Rightarrow> (User \<times> go_error option) \<times> 's"
  store_GetByID :: "'s \<Rightarrow> string \<Rightarrow> (User option \<times> go_error option) \<times> 's"
  store_GetByEmail :: "'s \<Rightarrow> string \<Rightarrow> (User option \<times> go_error option) \<times> 's"
  store_Update :: "'s \<Rightarrow> User \<Rightarrow> go_error option \<times> 's"
  store_Delete :: "'s \<Rightarrow> string \<Rightarrow> go_error option \<times> 's"

record 's UserService =
  userStore :: "'s UserStore"

definition NewUserService :: "'s UserStore \<Rightarrow> 's UserService" where
  "NewUserService st = \<lparr>userStore = st\<rparr>"

text \<open>
  The runtime outside the store: \<^verbatim>\<open>time_Now n\<close> is what the \<^verbatim>\<open>n\<close>-th reading of the wall
  clock returns, and \<^verbatim>\<open>bcrypt_GenerateFromPassword password cost\<close> is the outcome of
  hashing, the hash or an error. Each operation hashes at most once, so a function of
  the password covers a salted hash.
\<close>

record runtime =
  time_Now :: "nat \<Rightarrow> Time"
  bcrypt_GenerateFromPassword :: "string \<Rightarrow> nat \<Rightarrow> go_error + string"

definition bcrypt_DefaultCost :: nat where
  "bcrypt_DefaultCost = 10"

text \<open>What the service does to the outside, in order.\<close>

datatype event =
    Call_Create User
  | Call_GetByID string
  | Call_GetByEmail string
  | Call_Update User
  | Call_Delete string
  | Slog_Error string go_error

record 's world =
  db :: 's
  ticks :: nat
  trace :: "event list"

definition time_Now_call :: "runtime \<Rightarrow> 's world \<Rightarrow> Time \<times> 's world" where
  "time_Now_call rt w = (time_Now rt (ticks w), w\<lparr>ticks := Suc (ticks w)\<rparr>)"

definition slog_Error :: "string \<Rightarrow> go_error \<Rightarrow> 's world \<Rightarrow> 's world" where
  "slog_Error msg err w = w\<lparr>trace := trace w @ [Slog_Error msg err]\<rparr>"

definition userStore_Create ::
  "'s UserService \<Rightarrow> User \<Rightarrow> 's world \<Rightarrow> (User \<times> go_error option) \<times> 's world" where
  "userStore_Create s user w =
     (case store_Create (userStore s) (db w) user of
        (r, d) \<Rightarrow> (r, w\<lparr>db := d, trace := trace w @ [Call_Create user]\<rparr>))"

definition userStore_GetByID ::
  "'s UserService \<Rightarrow> string \<Rightarrow> 's world \<Rightarrow> (User option \<times> go_error option) \<times> 's world" where
  "userStore_GetByID s ident w =
     (case store_GetByID (userStore s) (db w) ident of
        (r, d) \<Rightarrow> (r, w\<lparr>db := d, trace := trace w @ [Call_GetByID ident]\<rparr>))"

definition userStore_GetByEmail ::
  "'s UserService \<Rightarrow> string \<Rightarrow> 's world \<Rightarrow> (User option \<times> go_error option) \<times> 's world" where
  "userStore_GetByEmail s email w =
     (case store_GetByEmail (userStore s) (db w) email of
        (r, d) \<Rightarrow> (r, w\<lparr>db := d, trace := trace w @ [Call_GetByEmail email]\<rparr>))"

definition userStore_Update ::
  "'s UserService \<Rightarrow> User \<Rightarrow> 's world \<Rightarrow> go_error option \<times> 's world" where
  "userStore_Update s user w =
     (case store_Update (userStore s) (db w) user of
        (r, d) \<Rightarrow> (r, w\<lparr>db := d, trace := trace w @ [Call_Update user]\<rparr>))"

definition userStore_Delete ::
  "'s UserService \<Rightarrow> string \<Rightarrow> 's world \<Rightarrow> go_error option \<times> 's world" where
  "userStore_Delete s ident w =
     (case store_Delete (userStore s) (db w) ident of
        (r, d) \<Rightarrow> (r, w\<lparr>db := d, trace := trace w @ [Call_Delete ident]\<rparr>))"

text \<open>The test of both uniqueness lookups: \<^verbatim>\<open>err != nil && !errors.Is(err, sql.ErrNoRows)\<close>.
  The result is the error to log when the test holds.\<close>

definition lookup_failure :: "go_error option \<Rightarrow> go_error option" where
  "lookup_failure err =
     (case err of
        None \<Rightarrow> None
      | Some e \<Rightarrow> if \<not> errors_Is e sql_ErrNoRows then Some e else None)"

subsection \<open>The operations of \<^verbatim>\<open>UserService\<close>\<close>

text \<open>
  Each operation takes the world before the call and returns its Go results with the
  world after it. The pointer arguments (\<^verbatim>\<open>user\<close>, \<^verbatim>\<open>request\<close>) are not nil: a nil one makes
  the Go code panic where it first reads a field. \<^verbatim>\<open>Create\<close> receives the caller's record
  by pointer and writes to it; the model returns the error together with the record as
  the call leaves it.
\<close>

definition UserService_Create ::
  "'s UserService \<Rightarrow> runtime \<Rightarrow> User \<Rightarrow> 's world \<Rightarrow> (go_error option \<times> User) \<times> 's world" where
  "UserService_Create s rt user w =
     (case time_Now_call rt w of (createdAt, w1) \<Rightarrow>
      case time_Now_call rt w1 of (updatedAt, w2) \<Rightarrow>
      let user1 = user\<lparr>CreatedAt := createdAt, UpdatedAt := updatedAt\<rparr> in
      case validateUser user1 of
        Some err \<Rightarrow> ((Some err, user1), w2)
      | None \<Rightarrow>
         (case bcrypt_GenerateFromPassword rt (Password user1) bcrypt_DefaultCost of
            Inl err \<Rightarrow>
              ((Some (errors_New ''an internal error occurred''), user1),
               slog_Error ''failed to hash password'' err w2)
          | Inr hashedPassword \<Rightarrow>
              let user2 = user1\<lparr>Password := hashedPassword\<rparr> in
              case userStore_GetByEmail s (Email user2) w2 of ((existingUser, err), w3) \<Rightarrow>
              (case lookup_failure err of
                 Some e \<Rightarrow>
                   ((Some (errors_New ''an internal error occurred''), user2),
                    slog_Error ''failed to check for existing user'' e w3)
               | None \<Rightarrow>
                   if existingUser \<noteq> None
                   then ((Some (errors_New ''user with this email already exists''), user2), w3)
                   else
                     case userStore_Create s user2 w3 of ((user3, err), w4) \<Rightarrow>
                     (case err of
                        Some e \<Rightarrow>
                          ((Some (errors_New ''an internal error occurred''), user3),
                           slog_Error ''failed to create user'' e w4)
                      | None \<Rightarrow> ((None, user3), w4)))))"

definition UserService_GetByID ::
  "'s UserService \<Rightarrow> string \<Rightarrow> 's world \<Rightarrow> (User option \<times> go_error option) \<times> 's world" where
  "UserService_GetByID s ident w =
     (case userStore_GetByID s ident w of ((user, err), w1) \<Rightarrow>
      (case err of
         Some e \<Rightarrow>
           ((None, Some (errors_New ''an internal error occurred'')),
            slog_Error ''failed to get user'' e w1)
       | None \<Rightarrow>
           (case user of
              None \<Rightarrow> ((None, Some (errors_New ''user not found'')), w1)
            | Some u \<Rightarrow> ((Some u, None), w1))))"

definition UserService_GetByEmail ::
  "'s UserService \<Rightarrow> string \<Rightarrow> 's world \<Rightarrow> (User option \<times> go_error option) \<times> 's world" where
  "UserService_GetByEmail s email w =
     (case userStore_GetByEmail s email w of ((user, err), w1) \<Rightarrow>
      (case err of
         Some e \<Rightarrow>
           ((None, Some (errors_New ''an internal error occurred'')),
            slog_Error ''failed to get user'' e w1)
       | None \<Rightarrow>
           (case user of
              None \<Rightarrow> ((None, Some (errors_New ''user not found'')), w1)
            | Some u \<Rightarrow> ((Some u, None), w1))))"

record UpdateUserRequest =
  UpdateUserRequest_FirstName :: string
  UpdateUserRequest_LastName :: string

definition UserService_Update ::
  "'s UserService \<Rightarrow> runtime \<Rightarrow> string \<Rightarrow> UpdateUserRequest \<Rightarrow> 's world
     \<Rightarrow> go_error option \<times> 's world" where
  "UserService_Update s rt ident request w =
     (case userStore_GetByID s ident w of ((existingUser, err), w1) \<Rightarrow>
      (case err of
         Some e \<Rightarrow>
           (Some (errors_New ''an internal error occurred''),
            slog_Error ''failed to get user'' e w1)
       | None \<Rightarrow>
           (case existingUser of
              None \<Rightarrow> (Some (errors_New ''user not found''), w1)
            | Some user0 \<Rightarrow>
                let user1 = (if UpdateUserRequest_FirstName request = ''''
                             then user0\<lparr>FirstName := UpdateUserRequest_FirstName request\<rparr>
                             else user0);
                    user2 = (if UpdateUserRequest_LastName request = ''''
                             then user1\<lparr>LastName := UpdateUserRequest_LastName request\<rparr>
                             else user1)
                in
                case time_Now_call rt w1 of (now, w2) \<Rightarrow>
                let user3 = user2\<lparr>UpdatedAt := now\<rparr> in
                case userStore_Update s user3 w2 of (err, w3) \<Rightarrow>
                (case err of
                   Some e \<Rightarrow>
                     (Some (errors_New ''an internal error occurred''),
                      slog_Error ''failed to update user'' e w3)
                 | None \<Rightarrow> (err, w3)))))"

record UpdatePasswordRequest =
  UpdatePasswordRequest_Password :: string

definition UserService_UpdatePassword ::
  "'s UserService \<Rightarrow> runtime \<Rightarrow> string \<Rightarrow> UpdatePasswordRequest \<Rightarrow> 's world
     \<Rightarrow> go_error option \<times> 's world" where
  "UserService_UpdatePassword s rt ident request w =
     (case userStore_GetByID s ident w of ((existingUser, err), w1) \<Rightarrow>
      (case err of
         Some e \<Rightarrow>
           (Some (errors_New ''an internal error occurred''),
            slog_Error ''failed to get user'' e w1)
       | None \<Rightarrow>
           (case existingUser of
              None \<Rightarrow> (Some (errors_New ''user not found''), w1)
            | Some user0 \<Rightarrow>
                if UpdatePasswordRequest_Password request = ''''
                then (Some (errors_New ''password is required''), w1)
                else
                  (case bcrypt_GenerateFromPassword rt (UpdatePasswordRequest_Password request)
                          bcrypt_DefaultCost of
                     Inl e \<Rightarrow>
                       (Some (errors_New ''an internal error occurred''),
                        slog_Error ''failed to hash password'' e w1)
                   | Inr hashedPassword \<Rightarrow>
                       let user1 = user0\<lparr>Password := hashedPassword\<rparr> in
                       case userStore_Update s user1 w1 of (err, w2) \<Rightarrow>
                       (case err of
                          Some e \<Rightarrow>
                            (Some (errors_New ''an internal error occurred''),
                             slog_Error ''failed to update user'' e w2)
                        | None \<Rightarrow> (None, w2))))))"

record UpdateEmailRequest =
  UpdateEmailRequest_Email :: string

definition UserService_UpdateEmail ::
  "'s UserService \<Rightarrow> runtime \<Rightarrow> string \<Rightarrow> UpdateEmailRequest \<Rightarrow> 's world
     \<Rightarrow> go_error option \<times> 's world" where
  "UserService_UpdateEmail s rt ident request w =
     (case userStore_GetByID s ident w of ((existingUser, err), w1) \<Rightarrow>
      (case err of
         Some e \<Rightarrow>
           (Some (errors_New ''an internal error occurred''),
            slog_Error ''failed to get user'' e w1)
       | None \<Rightarrow>
           (case existingUser of
              None \<Rightarrow> (Some (errors_New ''user not found''), w1)
            | Some user0 \<Rightarrow>
                if UpdateEmailRequest_Email request = ''''
                then (Some (errors_New ''email is required''), w1)
                else
                  case userStore_GetByEmail s (UpdateEmailRequest_Email request) w1 of
                    ((existingEmailUser, err), w2) \<Rightarrow>
                  (case lookup_failure err of
                     Some e \<Rightarrow>
                       (Some (errors_New ''an internal error occurred''),
                        slog_Error ''failed to check for existing user'' e w2)
                   | None \<Rightarrow>
                       if existingEmailUser \<noteq> None
                       then (Some (errors_New ''user with this email already exists''), w2)
                       else
                         let user1 = user0\<lparr>Email := UpdateEmailRequest_Email request\<rparr> in
                         case time_Now_call rt w2 of (now, w3) \<Rightarrow>
                         let user2 = user1\<lparr>UpdatedAt := now\<rparr> in
                         case userStore_Update s user2 w3 of (err, w4) \<Rightarrow>
                         (case err of
                            Some e \<Rightarrow>
                              (Some (errors_New ''an internal error occurred''),
                               slog_Error ''failed to update user'' e w4)
                          | None \<Rightarrow> (None, w4))))))"

definition UserService_Delete ::
  "'s UserService \<Rightarrow> string \<Rightarrow> 's world \<Rightarrow> go_error option \<times> 's world" where
  "UserService_Delete s ident w =
     (case userStore_GetByID s ident w of ((user, err), w1) \<Rightarrow>
      (case err of
         Some e \<Rightarrow>
           (Some (errors_New ''an internal error occurred''),
            slog_Error ''failed to get user'' e w1)
       | None \<Rightarrow>
           (case user of
              None \<Rightarrow> (Some (errors_New ''user not found''), w1)
            | Some u \<Rightarrow>
                case userStore_Delete s ident w1 of (err, w2) \<Rightarrow>
                (case err of
                   Some e \<Rightarrow>
                     (Some (errors_New ''an internal error occurred''),
                      slog_Error ''failed to delete user'' e w2)
                 | None \<Rightarrow> (None, w2)))))"

subsection \<open>The test double of \<^verbatim>\<open>user_test.go\<close>\<close>

text \<open>
  \<^verbatim>\<open>MockUserStore\<close> holds one optional function per method; a method whose function is
  nil returns nil (and a nil record). The functions of the tests keep no state, so the
  store's state is \<^verbatim>\<open>unit\<close>.
\<close>

record MockUserStore =
  CreateFunc :: "(User \<Rightarrow> User \<times> go_error option) option"
  GetByIDFunc :: "(string \<Rightarrow> User option \<times> go_error option) option"
  GetByEmailFunc :: "(string \<Rightarrow> User option \<times> go_error option) option"
  UpdateFunc :: "(User \<Rightarrow> go_error option) option"
  DeleteFunc :: "(string \<Rightarrow> go_error option) option"

definition MockUserStore_methods :: "MockUserStore \<Rightarrow> unit UserStore" where
  "MockUserStore_methods m =
     \<lparr>store_Create = (\<lambda>d user. (case CreateFunc m of Some f \<Rightarrow> f user | None \<Rightarrow> (user, None), d)),
      store_GetByID = (\<lambda>d ident. (case GetByIDFunc m of Some f \<Rightarrow> f ident | None \<Rightarrow> (None, None), d)),
      store_GetByEmail =
        (\<lambda>d email. (case GetByEmailFunc m of Some f \<Rightarrow> f email | None \<Rightarrow> (None, None), d)),
      store_Update = (\<lambda>d user. (case UpdateFunc m of Some f \<Rightarrow> f user | None \<Rightarrow> None, d)),
      store_Delete = (\<lambda>d ident. (case DeleteFunc m of Some f \<Rightarrow> f ident | None \<Rightarrow> None, d))\<rparr>"

definition no_funcs :: MockUserStore where
  "no_funcs = \<lparr>CreateFunc = None, GetByIDFunc = None, GetByEmailFunc = None,
                UpdateFunc = None, DeleteFunc = None\<rparr>"

text \<open>The record the tests let \<^verbatim>\<open>GetByID\<close> return, with a password and timestamps.\<close>

definition john :: User where
  "john = \<lparr>ID = ''1'', FirstName = ''John'', LastName = ''Doe'',
           Email = ''john.doe@example.com'', Password = ''old-hash'',
           CreatedAt = 5, UpdatedAt = 5\<rparr>"

text \<open>The record the tests hand to \<^verbatim>\<open>Create\<close> and \<^verbatim>\<open>validateUser\<close>.\<close>

definition new_john :: User where
  "new_john = \<lparr>ID = '''', FirstName = ''John'', LastName = ''Doe'',
               Email = ''john.doe@example.com'', Password = ''password'',
               CreatedAt = 0, UpdatedAt = 0\<rparr>"

text \<open>
  A runtime for the examples: the clock reads 1000, 1001, ...; the hash refuses a
  password of more than 72 bytes, as \<^verbatim>\<open>bcrypt.GenerateFromPassword\<close> does
  (\<^verbatim>\<open>ErrPasswordTooLong\<close>), and otherwise returns a string that stands for the hash.
\<close>

definition example_runtime :: runtime where
  "example_runtime =
     \<lparr>time_Now = (\<lambda>n. 1000 + int n),
      bcrypt_GenerateFromPassword =
        (\<lambda>password cost.
           if length password > 72
           then Inl (errors_New ''bcrypt: password length exceeds 72 bytes'')
           else Inr (''$2a$10$'' @ password))\<rparr>"

definition world0 :: "unit world" where
  "world0 = \<lparr>db = (), ticks = 0, trace = []\<rparr>"

text \<open>The events a call adds to the trace.\<close>

definition new_events :: "'s world \<Rightarrow> 's world \<Rightarrow> event list" where
  "new_events w w' = drop (length (trace w)) (trace w')"

text \<open>The closed set of messages of section 7 of the specification.\<close>

definition caller_visible_messages :: "string list" where
  "caller_visible_messages =
     [''password is required'', ''first name is required'', ''last name is required'',
      ''email is required'', ''invalid email format'',
      ''user with this email already exists'', ''user not found'',
      ''an internal error occurred'']"

subsection \<open>Notions used to state the properties\<close>

fun is_Slog_Error :: "event \<Rightarrow> bool" where
  "is_Slog_Error (Slog_Error msg err) = True"
| "is_Slog_Error ev = False"

fun is_Call_Create :: "event \<Rightarrow> bool" where
  "is_Call_Create (Call_Create user) = True"
| "is_Call_Create ev = False"

text \<open>
  What section 7 asks of the outcome of an operation: an error, if any, is made of one
  of the eight messages, and whenever the operation logged an underlying error, the
  caller gets \<^verbatim>\<open>an internal error occurred\<close>.
\<close>

definition safe_outcome :: "go_error option \<Rightarrow> event list \<Rightarrow> bool" where
  "safe_outcome err evs =
     ((case err of None \<Rightarrow> True | Some e \<Rightarrow> e \<in> errors_New ` set caller_visible_messages)
      \<and> (list_ex is_Slog_Error evs \<longrightarrow> err = Some (errors_New ''an internal error occurred'')))"

fun is_Call_Update :: "event \<Rightarrow> bool" where
  "is_Call_Update (Call_Update user) = True"
| "is_Call_Update ev = False"

text \<open>A store that holds the one user \<^verbatim>\<open>john\<close>, found by his id and by his email.\<close>

definition store_of_john :: "unit UserStore" where
  "store_of_john =
     MockUserStore_methods
       (no_funcs\<lparr>
          GetByIDFunc := Some (\<lambda>ident. if ident = ID john then (Some john, None) else (None, None)),
          GetByEmailFunc :=
            Some (\<lambda>email. if email = Email john then (Some john, None) else (None, None))\<rparr>)"

text \<open>
  The record \<^verbatim>\<open>Update\<close> has built from the loaded record \<^verbatim>\<open>user0\<close> when it calls the
  store's \<^verbatim>\<open>Update\<close>: the two conditional assignments and the time stamp, as in
  \<^verbatim>\<open>UserService_Update\<close>. It is used to state and prove what \<^verbatim>\<open>Update\<close> persists.
\<close>

definition Update_record :: "User \<Rightarrow> UpdateUserRequest \<Rightarrow> Time \<Rightarrow> User" where
  "Update_record user0 request now =
     (let user1 = (if UpdateUserRequest_FirstName request = ''''
                   then user0\<lparr>FirstName := UpdateUserRequest_FirstName request\<rparr>
                   else user0);
          user2 = (if UpdateUserRequest_LastName request = ''''
                   then user1\<lparr>LastName := UpdateUserRequest_LastName request\<rparr>
                   else user1)
      in user2\<lparr>UpdatedAt := now\<rparr>)"

text \<open>
  The caller's record after the first two statements of \<^verbatim>\<open>Create\<close>: \<^verbatim>\<open>CreatedAt\<close> and
  \<^verbatim>\<open>UpdatedAt\<close> hold two successive readings of the clock.
\<close>

definition Create_stamped :: "runtime \<Rightarrow> 's world \<Rightarrow> User \<Rightarrow> User" where
  "Create_stamped rt w user =
     user\<lparr>CreatedAt := time_Now rt (ticks w), UpdatedAt := time_Now rt (Suc (ticks w))\<rparr>"

text \<open>A valid record whose password has 73 bytes.\<close>

definition long_password_john :: User where
  "long_password_john = new_john\<lparr>Password := replicate 73 CHR ''a''\<rparr>"

section \<open>Validation\<close>

subsection \<open>The matcher accepts the language of the pattern\<close>

lemma nullable_lang: "nullable r \<longleftrightarrow> [] \<in> lang r"
  by (induction r) (auto simp: conc_def intro: star.intros)

lemma star_cons:
  "c # w \<in> star A \<longleftrightarrow> (\<exists>u v. w = u @ v \<and> c # u \<in> A \<and> v \<in> star A)"
proof
  assume "c # w \<in> star A"
  then show "\<exists>u v. w = u @ v \<and> c # u \<in> A \<and> v \<in> star A"
  proof (induction "c # w" rule: star.induct)
    case (star_step xs ys)
    show ?case
    proof (cases xs)
      case Nil
      with star_step show ?thesis by simp
    next
      case (Cons x xs')
      with star_step show ?thesis by auto
    qed
  qed
next
  assume "\<exists>u v. w = u @ v \<and> c # u \<in> A \<and> v \<in> star A"
  then obtain u v where "w = u @ v" "c # u \<in> A" "v \<in> star A" by blast
  then show "c # w \<in> star A"
    using star.star_step [of "c # u" A v] by simp
qed

lemma conc_cons:
  "c # w \<in> conc A B \<longleftrightarrow>
     (\<exists>u v. w = u @ v \<and> c # u \<in> A \<and> v \<in> B) \<or> ([] \<in> A \<and> c # w \<in> B)"
  by (auto simp: conc_def Cons_eq_append_conv)

lemma lang_deriv: "w \<in> lang (deriv c r) \<longleftrightarrow> c # w \<in> lang r"
proof (induction r arbitrary: w)
  case (Seq r s)
  then show ?case
    by (auto simp: conc_cons nullable_lang) (auto simp: conc_def)
next
  case (Star r)
  then show ?case by (auto simp: star_cons conc_def)
qed auto

lemma fold_deriv_lang: "nullable (fold deriv s r) \<longleftrightarrow> s \<in> lang r"
  by (induction s arbitrary: r) (auto simp: nullable_lang lang_deriv)

lemma MatchString_lang: "MatchString r s \<longleftrightarrow> s \<in> lang r"
  by (simp add: MatchString_def fold_deriv_lang)

subsection \<open>The language of the email pattern\<close>

lemma star_Class: "star {[c] | c. p c} = {s. list_all p s}"
proof (intro set_eqI iffI)
  fix s assume "s \<in> star {[c] | c. p c}"
  then show "s \<in> {s. list_all p s}"
    by (induction rule: star.induct) auto
next
  fix s assume "s \<in> {s. list_all p s}"
  then have "list_all p s" by simp
  then show "s \<in> star {[c] | c. p c}"
  proof (induction s)
    case Nil
    show ?case by (rule star.star_empty)
  next
    case (Cons a s)
    then have "[a] \<in> {[c] | c. p c}" and "s \<in> star {[c] | c. p c}" by auto
    then have "[a] @ s \<in> star {[c] | c. p c}" by (rule star.star_step)
    then show ?case by simp
  qed
qed

lemma lang_Plus_Class: "lang (Plus (Class p)) = {s. s \<noteq> [] \<and> list_all p s}"
proof -
  have "conc {[c] | c. p c} {s. list_all p s} = {s. s \<noteq> [] \<and> list_all p s}"
  proof (intro set_eqI iffI)
    fix s assume "s \<in> {s. s \<noteq> [] \<and> list_all p s}"
    then obtain a t where "s = [a] @ t" "p a" "list_all p t" by (cases s) auto
    then show "s \<in> conc {[c] | c. p c} {s. list_all p s}"
      unfolding conc_def by blast
  qed (auto simp: conc_def)
  then show ?thesis by (simp add: Plus_def star_Class)
qed

lemma lang_at_least_2_Class:
  "lang (at_least 2 (Class p)) = {s. 2 \<le> length s \<and> list_all p s}"
proof -
  have "conc {[c] | c. p c} (conc {[c] | c. p c} {s. list_all p s})
          = {s. 2 \<le> length s \<and> list_all p s}"
  proof (intro set_eqI iffI)
    fix s assume "s \<in> {s. 2 \<le> length s \<and> list_all p s}"
    then obtain a b t where "s = [a] @ [b] @ t" "p a" "p b" "list_all p t"
      by (cases s; cases "tl s") auto
    then show "s \<in> conc {[c] | c. p c} (conc {[c] | c. p c} {s. list_all p s})"
      unfolding conc_def by blast
  qed (auto simp: conc_def)
  then show ?thesis by (simp add: numeral_2_eq_2 star_Class)
qed

text \<open>The ranges of the pattern are the letters and digits of the specification.\<close>

lemma of_char_cases:
  assumes "lo \<le> (of_char c :: nat)" "(of_char c :: nat) \<le> hi"
  shows "c \<in> char_of ` {lo..hi}"
proof -
  have "c = char_of (of_char c :: nat)" by simp
  moreover have "(of_char c :: nat) \<in> {lo..hi}" using assms by simp
  ultimately show ?thesis by blast
qed

lemma range_lower:
  "in_range CHR ''a'' CHR ''z'' c \<longleftrightarrow> c \<in> set ''abcdefghijklmnopqrstuvwxyz''"
proof
  assume "in_range CHR ''a'' CHR ''z'' c"
  then have "c \<in> char_of ` {97..(122::nat)}"
    by (intro of_char_cases) (simp_all add: in_range_def)
  also have "{97..(122::nat)} = set [97..<123]"
    using atLeastAtMost_upt [of 97 122] by simp
  finally show "c \<in> set ''abcdefghijklmnopqrstuvwxyz''"
    by (simp add: upt_rec char_of_def bit_0)
next
  assume "c \<in> set ''abcdefghijklmnopqrstuvwxyz''"
  then show "in_range CHR ''a'' CHR ''z'' c"
    by (auto simp: in_range_def)
qed

lemma range_upper:
  "in_range CHR ''A'' CHR ''Z'' c \<longleftrightarrow> c \<in> set ''ABCDEFGHIJKLMNOPQRSTUVWXYZ''"
proof
  assume "in_range CHR ''A'' CHR ''Z'' c"
  then have "c \<in> char_of ` {65..(90::nat)}"
    by (intro of_char_cases) (simp_all add: in_range_def)
  also have "{65..(90::nat)} = set [65..<91]"
    using atLeastAtMost_upt [of 65 90] by simp
  finally show "c \<in> set ''ABCDEFGHIJKLMNOPQRSTUVWXYZ''"
    by (simp add: upt_rec char_of_def bit_0)
next
  assume "c \<in> set ''ABCDEFGHIJKLMNOPQRSTUVWXYZ''"
  then show "in_range CHR ''A'' CHR ''Z'' c"
    by (auto simp: in_range_def)
qed

lemma range_digit:
  "in_range CHR ''0'' CHR ''9'' c \<longleftrightarrow> c \<in> set ''0123456789''"
proof
  assume "in_range CHR ''0'' CHR ''9'' c"
  then have "c \<in> char_of ` {48..(57::nat)}"
    by (intro of_char_cases) (simp_all add: in_range_def)
  also have "{48..(57::nat)} = set [48..<58]"
    using atLeastAtMost_upt [of 48 57] by simp
  finally show "c \<in> set ''0123456789''"
    by (simp add: upt_rec char_of_def bit_0)
next
  assume "c \<in> set ''0123456789''"
  then show "in_range CHR ''0'' CHR ''9'' c"
    by (auto simp: in_range_def)
qed

lemma range_single: "in_range a a c \<longleftrightarrow> c = a"
proof -
  have "(of_char c :: nat) = of_char a \<longleftrightarrow> c = a" by (rule of_char_eq_iff)
  then show ?thesis unfolding in_range_def by auto
qed

lemma is_letter_ranges:
  "is_letter c \<longleftrightarrow> in_range CHR ''a'' CHR ''z'' c \<or> in_range CHR ''A'' CHR ''Z'' c"
  unfolding range_lower range_upper is_letter_def by auto

lemma is_digit_range: "is_digit c \<longleftrightarrow> in_range CHR ''0'' CHR ''9'' c"
  unfolding range_digit is_digit_def by simp

lemma local_class:
  "list_ex (\<lambda>(lo, hi). in_range lo hi c)
     [(CHR ''a'', CHR ''z''), (CHR ''A'', CHR ''Z''), (CHR ''0'', CHR ''9''),
      (CHR ''.'', CHR ''.''), (CHR ''_'', CHR ''_''), (CHR ''%'', CHR ''%''),
      (CHR ''+'', CHR ''+''), (CHR ''-'', CHR ''-'')] \<longleftrightarrow> local_part_char c"
  unfolding local_part_char_def is_letter_ranges is_digit_range
  by (auto simp: range_single)

lemma domain_class:
  "list_ex (\<lambda>(lo, hi). in_range lo hi c)
     [(CHR ''a'', CHR ''z''), (CHR ''A'', CHR ''Z''), (CHR ''0'', CHR ''9''),
      (CHR ''.'', CHR ''.''), (CHR ''-'', CHR ''-'')] \<longleftrightarrow> domain_char c"
  unfolding domain_char_def is_letter_ranges is_digit_range
  by (auto simp: range_single)

lemma tld_class:
  "list_ex (\<lambda>(lo, hi). in_range lo hi c)
     [(CHR ''a'', CHR ''z''), (CHR ''A'', CHR ''Z'')] \<longleftrightarrow> is_letter c"
  unfolding is_letter_ranges by simp

lemma lang_emailRegex:
  "lang emailRegex =
     conc {s. s \<noteq> [] \<and> list_all local_part_char s}
    (conc {''@''}
    (conc {s. s \<noteq> [] \<and> list_all domain_char s}
    (conc {''.''} {s. 2 \<le> length s \<and> list_all is_letter s})))"
proof -
  have lit: "lang (literal a) = {[a]}" for a
    by (auto simp: literal_def)
  show ?thesis
    unfolding emailRegex_def bracket_def lang.simps(5) lit
      lang_Plus_Class lang_at_least_2_Class local_class domain_class tld_class ..
qed

lemma MatchString_emailRegex: "MatchString emailRegex email \<longleftrightarrow> spec_email_format email"
proof
  assume "MatchString emailRegex email"
  then show "spec_email_format email"
    unfolding MatchString_lang lang_emailRegex spec_email_format_def conc_def by auto
next
  assume "spec_email_format email"
  then obtain l d t where parts: "email = l @ ''@'' @ d @ ''.'' @ t"
      "l \<noteq> []" "list_all local_part_char l" "d \<noteq> []" "list_all domain_char d"
      "2 \<le> length t" "list_all is_letter t"
    unfolding spec_email_format_def by blast
  have "''.'' @ t \<in> conc {''.''} {s. 2 \<le> length s \<and> list_all is_letter s}"
    unfolding conc_def using parts by blast
  then have "d @ ''.'' @ t \<in> conc {s. s \<noteq> [] \<and> list_all domain_char s}
      (conc {''.''} {s. 2 \<le> length s \<and> list_all is_letter s})"
    unfolding conc_def using parts by blast
  then have "''@'' @ d @ ''.'' @ t \<in> conc {''@''} (conc {s. s \<noteq> [] \<and> list_all domain_char s}
      (conc {''.''} {s. 2 \<le> length s \<and> list_all is_letter s}))"
    unfolding conc_def by blast
  then have "l @ ''@'' @ d @ ''.'' @ t \<in> lang emailRegex"
    unfolding lang_emailRegex using parts unfolding conc_def by blast
  then show "MatchString emailRegex email"
    unfolding MatchString_lang parts(1) .
qed

subsection \<open>The checks of \<^verbatim>\<open>validateUser\<close>\<close>

lemma spec_email_format_example: "spec_email_format ''john.doe@example.com''"
proof -
  have "''john.doe@example.com'' = ''john.doe'' @ ''@'' @ ''example'' @ ''.'' @ ''com''"
    by simp
  moreover have "list_all local_part_char ''john.doe''"
    by (simp add: local_part_char_def is_letter_def is_digit_def)
  moreover have "list_all domain_char ''example''"
    by (simp add: domain_char_def is_letter_def is_digit_def)
  moreover have "list_all is_letter ''com''"
    by (simp add: is_letter_def)
  moreover have "''john.doe'' \<noteq> []" "''example'' \<noteq> []" "2 \<le> length ''com''"
    by simp_all
  ultimately show ?thesis
    unfolding spec_email_format_def by blast
qed

lemma validateUser_new_john: "validateUser new_john = None"
  by (simp add: validateUser_def new_john_def MatchString_emailRegex spec_email_format_example)

text \<open>
  C4. For every candidate record, \<^verbatim>\<open>validateUser\<close> succeeds exactly when the password, the
  first name, the last name and the email are not empty and the email has the format
  the specification describes; otherwise it returns the message of the first check
  that fails, in the order password, first name, last name, email, email format. The
  format the specification describes is what the pattern of the code matches.
\<close>

theorem validateUser_first_violated_check:
  "(validateUser user = None \<longleftrightarrow>
      Password user \<noteq> '''' \<and> FirstName user \<noteq> '''' \<and> LastName user \<noteq> '''' \<and>
      Email user \<noteq> '''' \<and> spec_email_format (Email user))
   \<and> validateUser user =
      (if Password user = '''' then Some (errors_New ''password is required'')
       else if FirstName user = '''' then Some (errors_New ''first name is required'')
       else if LastName user = '''' then Some (errors_New ''last name is required'')
       else if Email user = '''' then Some (errors_New ''email is required'')
       else if \<not> spec_email_format (Email user) then Some (errors_New ''invalid email format'')
       else None)
   \<and> (MatchString emailRegex (Email user) \<longleftrightarrow> spec_email_format (Email user))"
  by (simp add: validateUser_def MatchString_emailRegex)

theorem validateUser_first_violated_check_witness:
  "validateUser new_john = None
   \<and> validateUser (new_john\<lparr>Password := '''', FirstName := ''''\<rparr>)
       = Some (errors_New ''password is required'')
   \<and> validateUser (new_john\<lparr>Email := ''john.doe''\<rparr>)
       = Some (errors_New ''invalid email format'')"
proof -
  have no_at: "\<not> spec_email_format ''john.doe''"
  proof
    assume "spec_email_format ''john.doe''"
    then obtain l d t where "''john.doe'' = l @ ''@'' @ d @ ''.'' @ t"
      unfolding spec_email_format_def by blast
    then have "CHR ''@'' \<in> set ''john.doe''"
      by (metis append_Cons in_set_conv_decomp)
    then show False by simp
  qed
  show ?thesis
    using validateUser_first_violated_check [of new_john]
      validateUser_first_violated_check [of "new_john\<lparr>Password := '''', FirstName := ''''\<rparr>"]
      validateUser_first_violated_check [of "new_john\<lparr>Email := ''john.doe''\<rparr>"]
      spec_email_format_example no_at
    by (simp add: new_john_def)
qed

section \<open>The user service\<close>

subsection \<open>What a call to a collaborator returns and leaves behind\<close>

lemma userStore_Create_simps [simp]:
  "fst (userStore_Create s user w) = fst (store_Create (userStore s) (db w) user)"
  "db (snd (userStore_Create s user w)) = snd (store_Create (userStore s) (db w) user)"
  "ticks (snd (userStore_Create s user w)) = ticks w"
  "trace (snd (userStore_Create s user w)) = trace w @ [Call_Create user]"
  by (simp_all add: userStore_Create_def split_beta)

lemma userStore_GetByID_simps [simp]:
  "fst (userStore_GetByID s ident w) = fst (store_GetByID (userStore s) (db w) ident)"
  "db (snd (userStore_GetByID s ident w)) = snd (store_GetByID (userStore s) (db w) ident)"
  "ticks (snd (userStore_GetByID s ident w)) = ticks w"
  "trace (snd (userStore_GetByID s ident w)) = trace w @ [Call_GetByID ident]"
  by (simp_all add: userStore_GetByID_def split_beta)

lemma userStore_GetByEmail_simps [simp]:
  "fst (userStore_GetByEmail s email w) = fst (store_GetByEmail (userStore s) (db w) email)"
  "db (snd (userStore_GetByEmail s email w)) = snd (store_GetByEmail (userStore s) (db w) email)"
  "ticks (snd (userStore_GetByEmail s email w)) = ticks w"
  "trace (snd (userStore_GetByEmail s email w)) = trace w @ [Call_GetByEmail email]"
  by (simp_all add: userStore_GetByEmail_def split_beta)

lemma userStore_Update_simps [simp]:
  "fst (userStore_Update s user w) = fst (store_Update (userStore s) (db w) user)"
  "db (snd (userStore_Update s user w)) = snd (store_Update (userStore s) (db w) user)"
  "ticks (snd (userStore_Update s user w)) = ticks w"
  "trace (snd (userStore_Update s user w)) = trace w @ [Call_Update user]"
  by (simp_all add: userStore_Update_def split_beta)

lemma userStore_Delete_simps [simp]:
  "fst (userStore_Delete s ident w) = fst (store_Delete (userStore s) (db w) ident)"
  "db (snd (userStore_Delete s ident w)) = snd (store_Delete (userStore s) (db w) ident)"
  "ticks (snd (userStore_Delete s ident w)) = ticks w"
  "trace (snd (userStore_Delete s ident w)) = trace w @ [Call_Delete ident]"
  by (simp_all add: userStore_Delete_def split_beta)

lemma time_Now_call_simps [simp]:
  "fst (time_Now_call rt w) = time_Now rt (ticks w)"
  "db (snd (time_Now_call rt w)) = db w"
  "ticks (snd (time_Now_call rt w)) = Suc (ticks w)"
  "trace (snd (time_Now_call rt w)) = trace w"
  by (simp_all add: time_Now_call_def)

lemma slog_Error_simps [simp]:
  "db (slog_Error msg err w) = db w"
  "ticks (slog_Error msg err w) = ticks w"
  "trace (slog_Error msg err w) = trace w @ [Slog_Error msg err]"
  by (simp_all add: slog_Error_def)

lemma lookup_failure_simps [simp]:
  "lookup_failure None = None"
  "lookup_failure (Some e) = (if errors_Is e sql_ErrNoRows then None else Some e)"
  by (simp_all add: lookup_failure_def)

lemma caller_visible_messages_service [simp]:
  "errors_New ''an internal error occurred'' \<in> errors_New ` set caller_visible_messages"
  "errors_New ''user not found'' \<in> errors_New ` set caller_visible_messages"
  "errors_New ''user with this email already exists'' \<in> errors_New ` set caller_visible_messages"
  "errors_New ''password is required'' \<in> errors_New ` set caller_visible_messages"
  "errors_New ''email is required'' \<in> errors_New ` set caller_visible_messages"
  by (simp_all add: caller_visible_messages_def)

lemma validateUser_messages:
  "validateUser user = Some e \<Longrightarrow> e \<in> errors_New ` set caller_visible_messages"
  by (auto simp: validateUser_def caller_visible_messages_def split: if_splits)

lemma validateUser_timestamps [simp]:
  "validateUser (user\<lparr>CreatedAt := a, UpdatedAt := b\<rparr>) = validateUser user"
  by (simp add: validateUser_def)

subsection \<open>Reading a user\<close>

text \<open>
  C6. \<^verbatim>\<open>GetByID\<close> and \<^verbatim>\<open>GetByEmail\<close> return \<^verbatim>\<open>an internal error occurred\<close> (and no record)
  when the store's lookup returns an error, \<^verbatim>\<open>user not found\<close> when it returns neither
  an error nor a record, and otherwise the very record the store returned, with no error.
\<close>

theorem GetByID_GetByEmail_results:
  "(store_GetByID (userStore s) (db w) ident = ((found, Some e), d) \<longrightarrow>
      fst (UserService_GetByID s ident w)
        = (None, Some (errors_New ''an internal error occurred'')))
   \<and> (store_GetByID (userStore s) (db w) ident = ((None, None), d) \<longrightarrow>
      fst (UserService_GetByID s ident w) = (None, Some (errors_New ''user not found'')))
   \<and> (store_GetByID (userStore s) (db w) ident = ((Some user, None), d) \<longrightarrow>
      fst (UserService_GetByID s ident w) = (Some user, None))
   \<and> (store_GetByEmail (userStore s) (db w) email = ((found, Some e), d) \<longrightarrow>
      fst (UserService_GetByEmail s email w)
        = (None, Some (errors_New ''an internal error occurred'')))
   \<and> (store_GetByEmail (userStore s) (db w) email = ((None, None), d) \<longrightarrow>
      fst (UserService_GetByEmail s email w) = (None, Some (errors_New ''user not found'')))
   \<and> (store_GetByEmail (userStore s) (db w) email = ((Some user, None), d) \<longrightarrow>
      fst (UserService_GetByEmail s email w) = (Some user, None))"
  by (simp add: UserService_GetByID_def UserService_GetByEmail_def split_beta)

text \<open>The three stores of the tests of \<^verbatim>\<open>GetByID\<close> and \<^verbatim>\<open>GetByEmail\<close>.\<close>

theorem GetByID_GetByEmail_results_witness:
  "fst (UserService_GetByID
         (NewUserService (MockUserStore_methods
            (no_funcs\<lparr>GetByIDFunc := Some (\<lambda>ident. (None, Some (errors_New ''random error'')))\<rparr>)))
         ''1'' world0)
     = (None, Some (errors_New ''an internal error occurred''))
   \<and> fst (UserService_GetByID (NewUserService (MockUserStore_methods no_funcs)) ''1'' world0)
     = (None, Some (errors_New ''user not found''))
   \<and> fst (UserService_GetByID
         (NewUserService (MockUserStore_methods
            (no_funcs\<lparr>GetByIDFunc := Some (\<lambda>ident. (Some john, None))\<rparr>)))
         ''1'' world0)
     = (Some john, None)
   \<and> fst (UserService_GetByEmail
         (NewUserService (MockUserStore_methods
            (no_funcs\<lparr>GetByEmailFunc := Some (\<lambda>email. (None, Some (errors_New ''random error'')))\<rparr>)))
         ''john.doe@example.com'' world0)
     = (None, Some (errors_New ''an internal error occurred''))
   \<and> fst (UserService_GetByEmail (NewUserService (MockUserStore_methods no_funcs))
         ''john.doe@example.com'' world0)
     = (None, Some (errors_New ''user not found''))
   \<and> fst (UserService_GetByEmail
         (NewUserService (MockUserStore_methods
            (no_funcs\<lparr>GetByEmailFunc := Some (\<lambda>email. (Some john, None))\<rparr>)))
         ''john.doe@example.com'' world0)
     = (Some john, None)"
  using
    GetByID_GetByEmail_results [of
      "NewUserService (MockUserStore_methods
         (no_funcs\<lparr>GetByIDFunc := Some (\<lambda>ident. (None, Some (errors_New ''random error'')))\<rparr>))"
      world0 "''1''" None "errors_New ''random error''" "()"]
    GetByID_GetByEmail_results [of
      "NewUserService (MockUserStore_methods no_funcs)" world0 "''1''" None _ "()"
      _ "''john.doe@example.com''"]
    GetByID_GetByEmail_results [of
      "NewUserService (MockUserStore_methods
         (no_funcs\<lparr>GetByIDFunc := Some (\<lambda>ident. (Some john, None))\<rparr>))"
      world0 "''1''" _ _ "()" john]
    GetByID_GetByEmail_results [of
      "NewUserService (MockUserStore_methods
         (no_funcs\<lparr>GetByEmailFunc := Some (\<lambda>email. (None, Some (errors_New ''random error'')))\<rparr>))"
      world0 _ None "errors_New ''random error''" "()" _ "''john.doe@example.com''"]
    GetByID_GetByEmail_results [of
      "NewUserService (MockUserStore_methods
         (no_funcs\<lparr>GetByEmailFunc := Some (\<lambda>email. (Some john, None))\<rparr>))"
      world0 _ _ _ "()" john "''john.doe@example.com''"]
  by (simp add: NewUserService_def MockUserStore_methods_def no_funcs_def world0_def)

subsection \<open>Updating the names\<close>

lemma UserService_Update_record:
  "UserService_Update s rt ident request w =
     (case userStore_GetByID s ident w of ((existingUser, err), w1) \<Rightarrow>
      (case err of
         Some e \<Rightarrow>
           (Some (errors_New ''an internal error occurred''),
            slog_Error ''failed to get user'' e w1)
       | None \<Rightarrow>
           (case existingUser of
              None \<Rightarrow> (Some (errors_New ''user not found''), w1)
            | Some user0 \<Rightarrow>
                case time_Now_call rt w1 of (now, w2) \<Rightarrow>
                case userStore_Update s (Update_record user0 request now) w2 of (err, w3) \<Rightarrow>
                (case err of
                   Some e \<Rightarrow>
                     (Some (errors_New ''an internal error occurred''),
                      slog_Error ''failed to update user'' e w3)
                 | None \<Rightarrow> (err, w3)))))"
  unfolding UserService_Update_def Update_record_def Let_def ..

text \<open>
  A requested name is written only when it is empty (\<^verbatim>\<open>if request.FirstName == ""\<close>), and
  what is written then is the empty string; the other fields but \<^verbatim>\<open>UpdatedAt\<close> are those
  of the loaded record.
\<close>

lemma Update_record_fields:
  "FirstName (Update_record user0 request now) =
     (if UpdateUserRequest_FirstName request = '''' then '''' else FirstName user0)"
  "LastName (Update_record user0 request now) =
     (if UpdateUserRequest_LastName request = '''' then '''' else LastName user0)"
  "UpdatedAt (Update_record user0 request now) = now"
  "ID (Update_record user0 request now) = ID user0"
  "Email (Update_record user0 request now) = Email user0"
  "Password (Update_record user0 request now) = Password user0"
  "CreatedAt (Update_record user0 request now) = CreatedAt user0"
  by (simp_all add: Update_record_def Let_def)

lemma Update_calls:
  assumes "store_GetByID (userStore s) (db w) ident = ((Some user0, None), d)"
  shows "Call_Update user'
           \<in> set (new_events w (snd (UserService_Update s rt ident request w)))
         \<longleftrightarrow> user' = Update_record user0 request (time_Now rt (ticks w))"
  using assms
  by (auto simp: UserService_Update_record new_events_def split_beta split: option.splits)

text \<open>
  C8. The record \<^verbatim>\<open>Update\<close> passes to the store's \<^verbatim>\<open>Update\<close> has the email and the password
  of the record the store's \<^verbatim>\<open>GetByID\<close> returned; and when \<^verbatim>\<open>GetByID\<close> returns a record
  and no error, the store's \<^verbatim>\<open>Update\<close> is called.
\<close>

theorem Update_keeps_email_and_password:
  "(store_GetByID (userStore s) (db w) ident = ((loaded, err), d) \<and>
    Call_Update user' \<in> set (new_events w (snd (UserService_Update s rt ident request w)))
      \<longrightarrow> (\<exists>user0. loaded = Some user0 \<and> err = None \<and>
             Email user' = Email user0 \<and> Password user' = Password user0))
   \<and> (store_GetByID (userStore s) (db w) ident = ((Some user0, None), d)
      \<longrightarrow> (\<exists>user'. Call_Update user'
               \<in> set (new_events w (snd (UserService_Update s rt ident request w)))))"
  by (auto simp: UserService_Update_record Update_record_fields new_events_def split_beta
      split: option.splits)

theorem Update_keeps_email_and_password_witness:
  "Call_Update (john\<lparr>UpdatedAt := 1000\<rparr>)
     \<in> set (new_events world0 (snd (UserService_Update
          (NewUserService (MockUserStore_methods
             (no_funcs\<lparr>GetByIDFunc := Some (\<lambda>ident. (Some john, None)),
                        UpdateFunc := Some (\<lambda>user. None)\<rparr>)))
          example_runtime ''1''
          \<lparr>UpdateUserRequest_FirstName = ''Jane'', UpdateUserRequest_LastName = ''Doe''\<rparr>
          world0)))
   \<and> Email (john\<lparr>UpdatedAt := 1000\<rparr>) = Email john
   \<and> Password (john\<lparr>UpdatedAt := 1000\<rparr>) = Password john"
  using Update_keeps_email_and_password [of
      "NewUserService (MockUserStore_methods
         (no_funcs\<lparr>GetByIDFunc := Some (\<lambda>ident. (Some john, None)),
                    UpdateFunc := Some (\<lambda>user. None)\<rparr>))"
      world0 "''1''" "Some john" None "()" "john\<lparr>UpdatedAt := 1000\<rparr>" example_runtime
      "\<lparr>UpdateUserRequest_FirstName = ''Jane'', UpdateUserRequest_LastName = ''Doe''\<rparr>" john]
  by (simp add: UserService_Update_def new_events_def split_beta
        NewUserService_def MockUserStore_methods_def no_funcs_def world0_def
        example_runtime_def)

text \<open>
  C1, at the input of the test \<^verbatim>\<open>TestUserService_Update_ReturnsValidUserForValidRequest\<close>:
  the store holds John Doe and the request asks for Jane Doe. \<^verbatim>\<open>Update\<close> returns no error,
  and the record it hands to the store's \<^verbatim>\<open>Update\<close> still has the first name John: the
  requested first name is not applied.
\<close>

theorem Update_requested_name_not_applied:
  "fst (UserService_Update
         (NewUserService (MockUserStore_methods
            (no_funcs\<lparr>GetByIDFunc := Some (\<lambda>ident. (Some john, None)),
                       UpdateFunc := Some (\<lambda>user. None)\<rparr>)))
         example_runtime ''1''
         \<lparr>UpdateUserRequest_FirstName = ''Jane'', UpdateUserRequest_LastName = ''Doe''\<rparr>
         world0) = None
   \<and> trace (snd (UserService_Update
         (NewUserService (MockUserStore_methods
            (no_funcs\<lparr>GetByIDFunc := Some (\<lambda>ident. (Some john, None)),
                       UpdateFunc := Some (\<lambda>user. None)\<rparr>)))
         example_runtime ''1''
         \<lparr>UpdateUserRequest_FirstName = ''Jane'', UpdateUserRequest_LastName = ''Doe''\<rparr>
         world0))
     = [Call_GetByID ''1'',
        Call_Update \<lparr>ID = ''1'', FirstName = ''John'', LastName = ''Doe'',
                     Email = ''john.doe@example.com'', Password = ''old-hash'',
                     CreatedAt = 5, UpdatedAt = 1000\<rparr>]"
  by (simp add: UserService_Update_def split_beta
        NewUserService_def MockUserStore_methods_def no_funcs_def world0_def
        example_runtime_def john_def)

subsection \<open>Changing the password\<close>

text \<open>
  \<^verbatim>\<open>UpdatePassword\<close> replaces the password of the loaded record and hands the record to the
  store's \<^verbatim>\<open>Update\<close>. It never reads the clock: \<^verbatim>\<open>UpdatedAt\<close> goes to the store as it was
  loaded.
\<close>

lemma UpdatePassword_persists:
  assumes "store_GetByID (userStore s) (db w) ident = ((Some user0, None), d1)"
    and "UpdatePasswordRequest_Password request \<noteq> ''''"
    and "bcrypt_GenerateFromPassword rt (UpdatePasswordRequest_Password request)
           bcrypt_DefaultCost = Inr h"
    and "store_Update (userStore s) d1 (user0\<lparr>Password := h\<rparr>) = (failure, d2)"
  shows "fst (UserService_UpdatePassword s rt ident request w)
           = (case failure of None \<Rightarrow> None
              | Some e \<Rightarrow> Some (errors_New ''an internal error occurred''))"
    and "new_events w (snd (UserService_UpdatePassword s rt ident request w))
           = [Call_GetByID ident, Call_Update (user0\<lparr>Password := h\<rparr>)]
             @ (case failure of None \<Rightarrow> []
                | Some e \<Rightarrow> [Slog_Error ''failed to update user'' e])"
  using assms
  by (simp_all add: UserService_UpdatePassword_def new_events_def split_beta Let_def
      split: option.splits)

lemma UpdatePassword_never_reads_clock:
  "ticks (snd (UserService_UpdatePassword s rt ident request w)) = ticks w"
  by (simp add: UserService_UpdatePassword_def split_beta Let_def
      split: option.splits sum.splits)

text \<open>
  C3, at the input of the test \<^verbatim>\<open>TestUserService_UpdatePassword_ReturnsNoErrorForValidRequest\<close>
  (the loaded record was last updated at time 5, the clock reads 1000): \<^verbatim>\<open>UpdatePassword\<close>
  succeeds, and the record it hands to the store's \<^verbatim>\<open>Update\<close> has the new hash and
  \<^verbatim>\<open>UpdatedAt\<close> still 5; the clock has not been read.
\<close>

theorem UpdatePassword_updatedAt_not_refreshed:
  "fst (UserService_UpdatePassword
         (NewUserService (MockUserStore_methods
            (no_funcs\<lparr>GetByIDFunc := Some (\<lambda>ident. (Some john, None)),
                       UpdateFunc := Some (\<lambda>user. None)\<rparr>)))
         example_runtime ''1'' \<lparr>UpdatePasswordRequest_Password = ''password''\<rparr> world0) = None
   \<and> trace (snd (UserService_UpdatePassword
         (NewUserService (MockUserStore_methods
            (no_funcs\<lparr>GetByIDFunc := Some (\<lambda>ident. (Some john, None)),
                       UpdateFunc := Some (\<lambda>user. None)\<rparr>)))
         example_runtime ''1'' \<lparr>UpdatePasswordRequest_Password = ''password''\<rparr> world0))
     = [Call_GetByID ''1'',
        Call_Update \<lparr>ID = ''1'', FirstName = ''John'', LastName = ''Doe'',
                     Email = ''john.doe@example.com'', Password = ''$2a$10$password'',
                     CreatedAt = 5, UpdatedAt = 5\<rparr>]
   \<and> ticks (snd (UserService_UpdatePassword
         (NewUserService (MockUserStore_methods
            (no_funcs\<lparr>GetByIDFunc := Some (\<lambda>ident. (Some john, None)),
                       UpdateFunc := Some (\<lambda>user. None)\<rparr>)))
         example_runtime ''1'' \<lparr>UpdatePasswordRequest_Password = ''password''\<rparr> world0)) = 0
   \<and> time_Now example_runtime 0 = 1000"
  by (simp add: UserService_UpdatePassword_def split_beta
        NewUserService_def MockUserStore_methods_def no_funcs_def world0_def
        example_runtime_def john_def)

subsection \<open>Changing the email\<close>

lemma UpdateEmail_lookup_failure:
  assumes "store_GetByID (userStore s) (db w) ident = ((Some user0, None), d1)"
    and "UpdateEmailRequest_Email request \<noteq> ''''"
    and "store_GetByEmail (userStore s) d1 (UpdateEmailRequest_Email request) = ((holder, err), d2)"
    and "lookup_failure err = Some e"
  shows "fst (UserService_UpdateEmail s rt ident request w)
           = Some (errors_New ''an internal error occurred'')"
    and "new_events w (snd (UserService_UpdateEmail s rt ident request w))
           = [Call_GetByID ident, Call_GetByEmail (UpdateEmailRequest_Email request),
              Slog_Error ''failed to check for existing user'' e]"
  using assms
  by (simp_all add: UserService_UpdateEmail_def new_events_def split_beta)

lemma UpdateEmail_holder_found:
  assumes "store_GetByID (userStore s) (db w) ident = ((Some user0, None), d1)"
    and "UpdateEmailRequest_Email request \<noteq> ''''"
    and "store_GetByEmail (userStore s) d1 (UpdateEmailRequest_Email request)
           = ((Some holder, err), d2)"
    and "lookup_failure err = None"
  shows "fst (UserService_UpdateEmail s rt ident request w)
           = Some (errors_New ''user with this email already exists'')"
    and "new_events w (snd (UserService_UpdateEmail s rt ident request w))
           = [Call_GetByID ident, Call_GetByEmail (UpdateEmailRequest_Email request)]"
  using assms
  by (simp_all add: UserService_UpdateEmail_def new_events_def split_beta)

lemma UpdateEmail_no_holder:
  assumes "store_GetByID (userStore s) (db w) ident = ((Some user0, None), d1)"
    and "UpdateEmailRequest_Email request \<noteq> ''''"
    and "store_GetByEmail (userStore s) d1 (UpdateEmailRequest_Email request) = ((None, err), d2)"
    and "lookup_failure err = None"
    and "store_Update (userStore s) d2
           (user0\<lparr>Email := UpdateEmailRequest_Email request,
                   UpdatedAt := time_Now rt (ticks w)\<rparr>) = (failure, d3)"
  shows "fst (UserService_UpdateEmail s rt ident request w)
           = (case failure of None \<Rightarrow> None
              | Some e \<Rightarrow> Some (errors_New ''an internal error occurred''))"
    and "new_events w (snd (UserService_UpdateEmail s rt ident request w))
           = [Call_GetByID ident, Call_GetByEmail (UpdateEmailRequest_Email request),
              Call_Update (user0\<lparr>Email := UpdateEmailRequest_Email request,
                                  UpdatedAt := time_Now rt (ticks w)\<rparr>)]
             @ (case failure of None \<Rightarrow> []
                | Some e \<Rightarrow> [Slog_Error ''failed to update user'' e])"
  using assms
  by (simp_all add: UserService_UpdateEmail_def new_events_def split_beta Let_def
      split: option.splits)

text \<open>
  C2, as the code has it. Let the store's \<^verbatim>\<open>GetByID\<close> return a record and no error, and
  let the requested email be non-empty. \<^verbatim>\<open>UpdateEmail\<close> returns
  \<^verbatim>\<open>user with this email already exists\<close> exactly when the \<^verbatim>\<open>GetByEmail\<close> lookup returns a
  record (with a nil or \<^verbatim>\<open>sql.ErrNoRows\<close> error), whoever that record belongs to, and it
  does not call the store's \<^verbatim>\<open>Update\<close> then. When the lookup returns no record (with a
  nil or \<^verbatim>\<open>sql.ErrNoRows\<close> error), it hands the loaded record with the new email and the
  current time to the store's \<^verbatim>\<open>Update\<close>, and returns no error exactly when that succeeds.
\<close>

theorem UpdateEmail_conflict_lookup:
  "store_GetByID (userStore s) (db w) ident = ((Some user0, None), d1) \<and>
   UpdateEmailRequest_Email request \<noteq> '''' \<and>
   store_GetByEmail (userStore s) d1 (UpdateEmailRequest_Email request) = ((holder, err), d2)
   \<longrightarrow>
     (fst (UserService_UpdateEmail s rt ident request w)
        = Some (errors_New ''user with this email already exists'')
      \<longleftrightarrow> holder \<noteq> None \<and> lookup_failure err = None)
   \<and> (holder \<noteq> None \<longrightarrow>
        \<not> list_ex is_Call_Update
            (new_events w (snd (UserService_UpdateEmail s rt ident request w))))
   \<and> (holder = None \<and> lookup_failure err = None \<longrightarrow>
        Call_Update (user0\<lparr>Email := UpdateEmailRequest_Email request,
                            UpdatedAt := time_Now rt (ticks w)\<rparr>)
          \<in> set (new_events w (snd (UserService_UpdateEmail s rt ident request w)))
        \<and> (fst (UserService_UpdateEmail s rt ident request w) = None
           \<longleftrightarrow> fst (store_Update (userStore s) d2
                      (user0\<lparr>Email := UpdateEmailRequest_Email request,
                              UpdatedAt := time_Now rt (ticks w)\<rparr>)) = None))"
proof (intro impI, elim conjE)
  let ?R = "UserService_UpdateEmail s rt ident request w"
  let ?rec = "user0\<lparr>Email := UpdateEmailRequest_Email request,
                      UpdatedAt := time_Now rt (ticks w)\<rparr>"
  assume load: "store_GetByID (userStore s) (db w) ident = ((Some user0, None), d1)"
    and email: "UpdateEmailRequest_Email request \<noteq> ''''"
    and look: "store_GetByEmail (userStore s) d1 (UpdateEmailRequest_Email request)
                 = ((holder, err), d2)"
  obtain failure d3 where upd: "store_Update (userStore s) d2 ?rec = (failure, d3)"
    by (cases "store_Update (userStore s) d2 ?rec")
  consider (failed) e where "lookup_failure err = Some e"
    | (found) u where "lookup_failure err = None" "holder = Some u"
    | (free) "lookup_failure err = None" "holder = None"
    by (cases "lookup_failure err"; cases holder) auto
  then show "(fst ?R = Some (errors_New ''user with this email already exists'')
        \<longleftrightarrow> holder \<noteq> None \<and> lookup_failure err = None)
     \<and> (holder \<noteq> None \<longrightarrow> \<not> list_ex is_Call_Update (new_events w (snd ?R)))
     \<and> (holder = None \<and> lookup_failure err = None \<longrightarrow>
          Call_Update ?rec \<in> set (new_events w (snd ?R))
          \<and> (fst ?R = None \<longleftrightarrow> fst (store_Update (userStore s) d2 ?rec) = None))"
  proof cases
    case failed
    then show ?thesis
      using UpdateEmail_lookup_failure [OF load email look, of e rt] by simp
  next
    case found
    then show ?thesis
      using UpdateEmail_holder_found [OF load email, of u err d2 rt] look by simp
  next
    case free
    then show ?thesis
      using UpdateEmail_no_holder [OF load email _ _ upd, of err] look upd
      by (simp split: option.splits)
  qed
qed

theorem UpdateEmail_conflict_lookup_witness:
  "fst (UserService_UpdateEmail (NewUserService store_of_john) example_runtime ''1''
          \<lparr>UpdateEmailRequest_Email = ''jd@example.com''\<rparr> world0) = None
   \<and> Call_Update (john\<lparr>Email := ''jd@example.com'', UpdatedAt := 1000\<rparr>)
       \<in> set (new_events world0
            (snd (UserService_UpdateEmail (NewUserService store_of_john) example_runtime ''1''
                   \<lparr>UpdateEmailRequest_Email = ''jd@example.com''\<rparr> world0)))"
  using UpdateEmail_conflict_lookup [of "NewUserService store_of_john" world0 "''1''" john "()"
      "\<lparr>UpdateEmailRequest_Email = ''jd@example.com''\<rparr>" None None "()" example_runtime]
  by (simp add: NewUserService_def store_of_john_def MockUserStore_methods_def no_funcs_def
        world0_def example_runtime_def john_def)

text \<open>
  C2, as the claim states it, fails when the user found under the email is the very
  user being updated: \<^verbatim>\<open>john\<close> asks for the email he already has, the lookup finds
  \<^verbatim>\<open>john\<close>, and \<^verbatim>\<open>UpdateEmail\<close> answers \<^verbatim>\<open>user with this email already exists\<close> without
  calling the store's \<^verbatim>\<open>Update\<close>.
\<close>

theorem UpdateEmail_same_user_rejected:
  "fst (store_GetByID store_of_john () ''1'') = (Some john, None)
   \<and> fst (store_GetByEmail store_of_john () ''john.doe@example.com'') = (Some john, None)
   \<and> fst (UserService_UpdateEmail (NewUserService store_of_john) example_runtime ''1''
          \<lparr>UpdateEmailRequest_Email = ''john.doe@example.com''\<rparr> world0)
       = Some (errors_New ''user with this email already exists'')
   \<and> trace (snd (UserService_UpdateEmail (NewUserService store_of_john) example_runtime ''1''
          \<lparr>UpdateEmailRequest_Email = ''john.doe@example.com''\<rparr> world0))
       = [Call_GetByID ''1'', Call_GetByEmail ''john.doe@example.com'']"
  by (simp add: UserService_UpdateEmail_def split_beta
        NewUserService_def store_of_john_def MockUserStore_methods_def no_funcs_def
        world0_def example_runtime_def john_def)

subsection \<open>Creating a user\<close>

lemma Create_invalid:
  assumes "validateUser user = Some e"
  shows "fst (UserService_Create s rt user w) = (Some e, Create_stamped rt w user)"
    and "new_events w (snd (UserService_Create s rt user w)) = []"
  using assms
  by (simp_all add: UserService_Create_def Create_stamped_def new_events_def split_beta Let_def)

lemma Create_hash_failure:
  assumes "validateUser user = None"
    and "bcrypt_GenerateFromPassword rt (Password user) bcrypt_DefaultCost = Inl e"
  shows "fst (UserService_Create s rt user w)
           = (Some (errors_New ''an internal error occurred''), Create_stamped rt w user)"
    and "new_events w (snd (UserService_Create s rt user w))
           = [Slog_Error ''failed to hash password'' e]"
  using assms
  by (simp_all add: UserService_Create_def Create_stamped_def new_events_def split_beta Let_def)

lemma Create_lookup_failure:
  assumes "validateUser user = None"
    and "bcrypt_GenerateFromPassword rt (Password user) bcrypt_DefaultCost = Inr h"
    and "store_GetByEmail (userStore s) (db w) (Email user) = ((holder, err), d)"
    and "lookup_failure err = Some e"
  shows "fst (UserService_Create s rt user w)
           = (Some (errors_New ''an internal error occurred''),
              (Create_stamped rt w user)\<lparr>Password := h\<rparr>)"
    and "new_events w (snd (UserService_Create s rt user w))
           = [Call_GetByEmail (Email user), Slog_Error ''failed to check for existing user'' e]"
  using assms
  by (simp_all add: UserService_Create_def Create_stamped_def new_events_def split_beta Let_def)

lemma Create_holder_found:
  assumes "validateUser user = None"
    and "bcrypt_GenerateFromPassword rt (Password user) bcrypt_DefaultCost = Inr h"
    and "store_GetByEmail (userStore s) (db w) (Email user) = ((Some holder, err), d)"
    and "lookup_failure err = None"
  shows "fst (UserService_Create s rt user w)
           = (Some (errors_New ''user with this email already exists''),
              (Create_stamped rt w user)\<lparr>Password := h\<rparr>)"
    and "new_events w (snd (UserService_Create s rt user w)) = [Call_GetByEmail (Email user)]"
  using assms
  by (simp_all add: UserService_Create_def Create_stamped_def new_events_def split_beta Let_def)

lemma Create_no_holder:
  assumes "validateUser user = None"
    and "bcrypt_GenerateFromPassword rt (Password user) bcrypt_DefaultCost = Inr h"
    and "store_GetByEmail (userStore s) (db w) (Email user) = ((None, err), d)"
    and "lookup_failure err = None"
    and "store_Create (userStore s) d ((Create_stamped rt w user)\<lparr>Password := h\<rparr>)
           = ((left, failure), d')"
  shows "fst (UserService_Create s rt user w)
           = (case failure of None \<Rightarrow> None
              | Some e \<Rightarrow> Some (errors_New ''an internal error occurred''), left)"
    and "new_events w (snd (UserService_Create s rt user w))
           = [Call_GetByEmail (Email user),
              Call_Create ((Create_stamped rt w user)\<lparr>Password := h\<rparr>)]
             @ (case failure of None \<Rightarrow> []
                | Some e \<Rightarrow> [Slog_Error ''failed to create user'' e])"
  using assms
  by (simp_all add: UserService_Create_def Create_stamped_def new_events_def split_beta Let_def
      split: option.splits)

text \<open>
  C5, as the code has it. When the store's \<^verbatim>\<open>GetByEmail\<close> reports an existing user for the
  email of the input (a record, with a nil or \<^verbatim>\<open>sql.ErrNoRows\<close> error), \<^verbatim>\<open>Create\<close> does not
  call the store's \<^verbatim>\<open>Create\<close>; and for a valid input whose password the hash accepts, it
  returns \<^verbatim>\<open>user with this email already exists\<close>.
\<close>

theorem Create_existing_email:
  "store_GetByEmail (userStore s) (db w) (Email user) = ((Some holder, err), d) \<and>
   lookup_failure err = None
   \<longrightarrow>
     \<not> list_ex is_Call_Create (new_events w (snd (UserService_Create s rt user w)))
     \<and> (validateUser user = None \<and>
        bcrypt_GenerateFromPassword rt (Password user) bcrypt_DefaultCost = Inr h
        \<longrightarrow> fst (fst (UserService_Create s rt user w))
              = Some (errors_New ''user with this email already exists''))"
proof (intro impI, elim conjE)
  assume look: "store_GetByEmail (userStore s) (db w) (Email user) = ((Some holder, err), d)"
    and ok: "lookup_failure err = None"
  have no_call: "\<not> list_ex is_Call_Create (new_events w (snd (UserService_Create s rt user w)))"
  proof (cases "validateUser user")
    case (Some e)
    then show ?thesis by (simp add: Create_invalid)
  next
    case None
    show ?thesis
    proof (cases "bcrypt_GenerateFromPassword rt (Password user) bcrypt_DefaultCost")
      case (Inl e)
      with None show ?thesis by (simp add: Create_hash_failure)
    next
      case (Inr h')
      with None show ?thesis by (simp add: Create_holder_found [OF _ _ look ok])
    qed
  qed
  moreover have "fst (fst (UserService_Create s rt user w))
      = Some (errors_New ''user with this email already exists'')"
    if "validateUser user = None"
      and "bcrypt_GenerateFromPassword rt (Password user) bcrypt_DefaultCost = Inr h"
    using that by (simp add: Create_holder_found [OF _ _ look ok])
  ultimately show "\<not> list_ex is_Call_Create (new_events w (snd (UserService_Create s rt user w)))
     \<and> (validateUser user = None \<and>
        bcrypt_GenerateFromPassword rt (Password user) bcrypt_DefaultCost = Inr h
        \<longrightarrow> fst (fst (UserService_Create s rt user w))
              = Some (errors_New ''user with this email already exists''))"
    by blast
qed

theorem Create_existing_email_witness:
  "validateUser new_john = None
   \<and> fst (store_GetByEmail store_of_john () (Email new_john)) = (Some john, None)
   \<and> fst (fst (UserService_Create (NewUserService store_of_john) example_runtime new_john world0))
       = Some (errors_New ''user with this email already exists'')
   \<and> \<not> list_ex is_Call_Create
         (new_events world0
            (snd (UserService_Create (NewUserService store_of_john) example_runtime new_john
                    world0)))"
  using Create_existing_email [of "NewUserService store_of_john" world0 new_john john None "()"
      example_runtime "''$2a$10$password''"] validateUser_new_john
  by (simp add: NewUserService_def store_of_john_def MockUserStore_methods_def no_funcs_def
        world0_def example_runtime_def john_def new_john_def bcrypt_DefaultCost_def)

lemma validateUser_long_password_john: "validateUser long_password_john = None"
  by (simp add: validateUser_def long_password_john_def new_john_def MatchString_emailRegex
        spec_email_format_example)

text \<open>
  C5, as the claim states it, fails for a valid input whose password the hash refuses:
  validation accepts a password of 73 bytes, the store reports an existing user for the
  email, and \<^verbatim>\<open>Create\<close> returns \<^verbatim>\<open>an internal error occurred\<close>, before it asks the store.
\<close>

theorem Create_existing_email_hash_failure:
  "validateUser long_password_john = None
   \<and> fst (store_GetByEmail store_of_john () (Email long_password_john)) = (Some john, None)
   \<and> fst (fst (UserService_Create (NewUserService store_of_john) example_runtime
                 long_password_john world0))
       = Some (errors_New ''an internal error occurred'')
   \<and> trace (snd (UserService_Create (NewUserService store_of_john) example_runtime
                 long_password_john world0))
       = [Slog_Error ''failed to hash password''
            (errors_New ''bcrypt: password length exceeds 72 bytes'')]"
proof -
  have hash: "bcrypt_GenerateFromPassword example_runtime (Password long_password_john)
      bcrypt_DefaultCost = Inl (errors_New ''bcrypt: password length exceeds 72 bytes'')"
    by (simp add: example_runtime_def long_password_john_def)
  have "new_events world0 (snd (UserService_Create (NewUserService store_of_john)
          example_runtime long_password_john world0))
      = trace (snd (UserService_Create (NewUserService store_of_john) example_runtime
          long_password_john world0))"
    by (simp add: new_events_def world0_def)
  then show ?thesis
    using Create_hash_failure [OF validateUser_long_password_john hash,
        where s = "NewUserService store_of_john" and w = world0]
      validateUser_long_password_john
    by (simp add: store_of_john_def MockUserStore_methods_def no_funcs_def john_def
          long_password_john_def new_john_def)
qed

text \<open>
  C9. \<^verbatim>\<open>Create\<close> writes to the caller's record before it can fail. When validation fails,
  the record the caller is left with carries the two time stamps. When validation and
  the hash succeed, the password is replaced by the hash before the store is asked for
  the email: if that lookup fails, or finds a user, the caller is left with the
  stamped record holding the hash in place of the plaintext. If the store's \<^verbatim>\<open>Create\<close>
  fails, the caller is left with that record as the store's \<^verbatim>\<open>Create\<close> left it: with the
  hash and the time stamps, when the store wrote at most the \<^verbatim>\<open>ID\<close>.
\<close>

theorem Create_mutates_caller_record:
  "(validateUser user = Some e \<longrightarrow>
      fst (UserService_Create s rt user w) = (Some e, Create_stamped rt w user))
   \<and> (validateUser user = None \<and>
      bcrypt_GenerateFromPassword rt (Password user) bcrypt_DefaultCost = Inr h \<and>
      store_GetByEmail (userStore s) (db w) (Email user) = ((holder, err), d)
      \<longrightarrow>
        (lookup_failure err \<noteq> None \<longrightarrow>
           fst (UserService_Create s rt user w)
             = (Some (errors_New ''an internal error occurred''),
                (Create_stamped rt w user)\<lparr>Password := h\<rparr>))
        \<and> (lookup_failure err = None \<and> holder \<noteq> None \<longrightarrow>
           fst (UserService_Create s rt user w)
             = (Some (errors_New ''user with this email already exists''),
                (Create_stamped rt w user)\<lparr>Password := h\<rparr>))
        \<and> (lookup_failure err = None \<and> holder = None \<and>
           store_Create (userStore s) d ((Create_stamped rt w user)\<lparr>Password := h\<rparr>)
             = ((left, Some e'), d')
           \<longrightarrow>
             fst (UserService_Create s rt user w)
               = (Some (errors_New ''an internal error occurred''), left)
             \<and> (left = ((Create_stamped rt w user)\<lparr>Password := h\<rparr>)\<lparr>ID := ID left\<rparr> \<longrightarrow>
                  Password left = h \<and> CreatedAt left = time_Now rt (ticks w) \<and>
                  UpdatedAt left = time_Now rt (Suc (ticks w)))))"
proof (intro conjI impI; (elim conjE)?)
  assume "validateUser user = Some e"
  then show "fst (UserService_Create s rt user w) = (Some e, Create_stamped rt w user)"
    by (rule Create_invalid)
next
  assume valid: "validateUser user = None"
    and hash: "bcrypt_GenerateFromPassword rt (Password user) bcrypt_DefaultCost = Inr h"
    and look: "store_GetByEmail (userStore s) (db w) (Email user) = ((holder, err), d)"
  {
    assume "lookup_failure err \<noteq> None"
    then obtain x where "lookup_failure err = Some x" by blast
    then show "fst (UserService_Create s rt user w)
        = (Some (errors_New ''an internal error occurred''),
           (Create_stamped rt w user)\<lparr>Password := h\<rparr>)"
      using Create_lookup_failure [OF valid hash look] by simp
  next
    assume "lookup_failure err = None" "holder \<noteq> None"
    then show "fst (UserService_Create s rt user w)
        = (Some (errors_New ''user with this email already exists''),
           (Create_stamped rt w user)\<lparr>Password := h\<rparr>)"
      using Create_holder_found [OF valid hash] look by auto
  next
    assume ok: "lookup_failure err = None" and free: "holder = None"
      and create: "store_Create (userStore s) d ((Create_stamped rt w user)\<lparr>Password := h\<rparr>)
             = ((left, Some e'), d')"
    show "fst (UserService_Create s rt user w)
        = (Some (errors_New ''an internal error occurred''), left)"
      using Create_no_holder [OF valid hash _ ok create] look free by simp
    {
      assume "left = ((Create_stamped rt w user)\<lparr>Password := h\<rparr>)\<lparr>ID := ID left\<rparr>"
      then have fields: "Password left = Password ((Create_stamped rt w user)\<lparr>Password := h\<rparr>)"
        "CreatedAt left = CreatedAt ((Create_stamped rt w user)\<lparr>Password := h\<rparr>)"
        "UpdatedAt left = UpdatedAt ((Create_stamped rt w user)\<lparr>Password := h\<rparr>)"
        by (metis User.select_convs User.surjective User.update_convs(1))+
      show "Password left = h" using fields by (simp add: Create_stamped_def)
      show "CreatedAt left = time_Now rt (ticks w)" using fields by (simp add: Create_stamped_def)
      show "UpdatedAt left = time_Now rt (Suc (ticks w))"
        using fields by (simp add: Create_stamped_def)
    }
  }
qed

theorem Create_mutates_caller_record_witness:
  "fst (UserService_Create (NewUserService store_of_john) example_runtime
          (new_john\<lparr>Password := ''''\<rparr>) world0)
     = (Some (errors_New ''password is required''),
        new_john\<lparr>Password := '''', CreatedAt := 1000, UpdatedAt := 1001\<rparr>)
   \<and> fst (UserService_Create (NewUserService store_of_john) example_runtime new_john world0)
     = (Some (errors_New ''user with this email already exists''),
        new_john\<lparr>Password := ''$2a$10$password'', CreatedAt := 1000, UpdatedAt := 1001\<rparr>)
   \<and> fst (UserService_Create
          (NewUserService (MockUserStore_methods
             (no_funcs\<lparr>GetByEmailFunc :=
                          Some (\<lambda>email. (None, Some (errors_New ''random error'')))\<rparr>)))
          example_runtime new_john world0)
     = (Some (errors_New ''an internal error occurred''),
        new_john\<lparr>Password := ''$2a$10$password'', CreatedAt := 1000, UpdatedAt := 1001\<rparr>)
   \<and> fst (UserService_Create
          (NewUserService (MockUserStore_methods
             (no_funcs\<lparr>CreateFunc :=
                          Some (\<lambda>user. (user, Some (errors_New ''random error'')))\<rparr>)))
          example_runtime new_john world0)
     = (Some (errors_New ''an internal error occurred''),
        new_john\<lparr>Password := ''$2a$10$password'', CreatedAt := 1000, UpdatedAt := 1001\<rparr>)"
proof -
  let ?lookup_fails = "NewUserService (MockUserStore_methods
      (no_funcs\<lparr>GetByEmailFunc := Some (\<lambda>email. (None, Some (errors_New ''random error'')))\<rparr>))"
  let ?create_fails = "NewUserService (MockUserStore_methods
      (no_funcs\<lparr>CreateFunc := Some (\<lambda>user. (user, Some (errors_New ''random error'')))\<rparr>))"
  let ?hashed = "new_john\<lparr>Password := ''$2a$10$password'', CreatedAt := 1000,
      UpdatedAt := 1001\<rparr>"
  have invalid: "validateUser (new_john\<lparr>Password := ''''\<rparr>)
      = Some (errors_New ''password is required'')"
    by (simp add: validateUser_def)
  have hash: "bcrypt_GenerateFromPassword example_runtime (Password new_john) bcrypt_DefaultCost
      = Inr ''$2a$10$password''"
    by (simp add: example_runtime_def new_john_def)
  have stamped: "Create_stamped example_runtime world0 user
      = user\<lparr>CreatedAt := 1000, UpdatedAt := 1001\<rparr>" for user
    by (simp add: Create_stamped_def example_runtime_def world0_def)
  have found: "store_GetByEmail (userStore (NewUserService store_of_john)) (db world0)
      (Email new_john) = ((Some john, None), ())"
    by (simp add: NewUserService_def store_of_john_def MockUserStore_methods_def no_funcs_def
          john_def new_john_def)
  have failed: "store_GetByEmail (userStore ?lookup_fails) (db world0) (Email new_john)
      = ((None, Some (errors_New ''random error'')), ())"
    by (simp add: NewUserService_def MockUserStore_methods_def no_funcs_def)
  have free: "store_GetByEmail (userStore ?create_fails) (db world0) (Email new_john)
      = ((None, None), ())"
    by (simp add: NewUserService_def MockUserStore_methods_def no_funcs_def)
  have create: "store_Create (userStore ?create_fails) ()
      ((Create_stamped example_runtime world0 new_john)\<lparr>Password := ''$2a$10$password''\<rparr>)
      = ((?hashed, Some (errors_New ''random error'')), ())"
    by (simp add: stamped NewUserService_def MockUserStore_methods_def no_funcs_def)
  have "fst (UserService_Create (NewUserService store_of_john) example_runtime
          (new_john\<lparr>Password := ''''\<rparr>) world0)
     = (Some (errors_New ''password is required''),
        new_john\<lparr>Password := '''', CreatedAt := 1000, UpdatedAt := 1001\<rparr>)"
    using Create_mutates_caller_record [
        where s = "NewUserService store_of_john" and rt = example_runtime and w = world0,
        THEN conjunct1, THEN mp, OF invalid]
    by (simp add: stamped)
  moreover
  have "fst (UserService_Create (NewUserService store_of_john) example_runtime new_john world0)
     = (Some (errors_New ''user with this email already exists''), ?hashed)"
    using Create_mutates_caller_record [THEN conjunct2, THEN mp,
        OF conjI [OF validateUser_new_john conjI [OF hash found]],
        THEN conjunct2, THEN conjunct1]
    by (simp add: stamped)
  moreover
  have "fst (UserService_Create ?lookup_fails example_runtime new_john world0)
     = (Some (errors_New ''an internal error occurred''), ?hashed)"
    using Create_mutates_caller_record [THEN conjunct2, THEN mp,
        OF conjI [OF validateUser_new_john conjI [OF hash failed]], THEN conjunct1]
    by (simp add: stamped)
  moreover
  have "fst (UserService_Create ?create_fails example_runtime new_john world0)
     = (Some (errors_New ''an internal error occurred''), ?hashed)"
    using Create_mutates_caller_record [THEN conjunct2, THEN mp,
        OF conjI [OF validateUser_new_john conjI [OF hash free]],
        THEN conjunct2, THEN conjunct2, THEN mp, OF conjI [OF _ conjI [OF _ create]],
        THEN conjunct1]
    by simp
  ultimately show ?thesis by simp
qed

subsection \<open>The signal of absence\<close>

lemma GetByID_not_found_iff:
  assumes "store_GetByID (userStore s) (db w) ident = ((found, err), d)"
  shows "snd (fst (UserService_GetByID s ident w)) = Some (errors_New ''user not found'')
           \<longleftrightarrow> found = None \<and> err = None"
    and "err \<noteq> None \<Longrightarrow> snd (fst (UserService_GetByID s ident w))
           = Some (errors_New ''an internal error occurred'')"
  using assms
  by (auto simp: UserService_GetByID_def split_beta split: option.splits)

lemma GetByEmail_not_found_iff:
  assumes "store_GetByEmail (userStore s) (db w) email = ((found, err), d)"
  shows "snd (fst (UserService_GetByEmail s email w)) = Some (errors_New ''user not found'')
           \<longleftrightarrow> found = None \<and> err = None"
    and "err \<noteq> None \<Longrightarrow> snd (fst (UserService_GetByEmail s email w))
           = Some (errors_New ''an internal error occurred'')"
  using assms
  by (auto simp: UserService_GetByEmail_def split_beta split: option.splits)

lemma Update_not_found_iff:
  assumes "store_GetByID (userStore s) (db w) ident = ((found, err), d)"
  shows "fst (UserService_Update s rt ident request w) = Some (errors_New ''user not found'')
           \<longleftrightarrow> found = None \<and> err = None"
    and "err \<noteq> None \<Longrightarrow> fst (UserService_Update s rt ident request w)
           = Some (errors_New ''an internal error occurred'')"
  using assms
  by (auto simp: UserService_Update_record split_beta split: option.splits)

lemma UpdatePassword_not_found_iff:
  assumes "store_GetByID (userStore s) (db w) ident = ((found, err), d)"
  shows "fst (UserService_UpdatePassword s rt ident request w)
           = Some (errors_New ''user not found'')
           \<longleftrightarrow> found = None \<and> err = None"
    and "err \<noteq> None \<Longrightarrow> fst (UserService_UpdatePassword s rt ident request w)
           = Some (errors_New ''an internal error occurred'')"
  using assms
  by (auto simp: UserService_UpdatePassword_def split_beta Let_def
      split: option.splits sum.splits)

lemma UpdateEmail_not_found_iff:
  assumes "store_GetByID (userStore s) (db w) ident = ((found, err), d)"
  shows "fst (UserService_UpdateEmail s rt ident request w)
           = Some (errors_New ''user not found'')
           \<longleftrightarrow> found = None \<and> err = None"
    and "err \<noteq> None \<Longrightarrow> fst (UserService_UpdateEmail s rt ident request w)
           = Some (errors_New ''an internal error occurred'')"
  using assms
  by (auto simp: UserService_UpdateEmail_def split_beta Let_def split: option.splits)

lemma Delete_not_found_iff:
  assumes "store_GetByID (userStore s) (db w) ident = ((found, err), d)"
  shows "fst (UserService_Delete s ident w) = Some (errors_New ''user not found'')
           \<longleftrightarrow> found = None \<and> err = None"
    and "err \<noteq> None \<Longrightarrow> fst (UserService_Delete s ident w)
           = Some (errors_New ''an internal error occurred'')"
  using assms
  by (auto simp: UserService_Delete_def split_beta split: option.splits)

text \<open>
  C10. For \<^verbatim>\<open>GetByID\<close>, \<^verbatim>\<open>GetByEmail\<close> and the load at the start of \<^verbatim>\<open>Update\<close>,
  \<^verbatim>\<open>UpdatePassword\<close>, \<^verbatim>\<open>UpdateEmail\<close> and \<^verbatim>\<open>Delete\<close>, the result is \<^verbatim>\<open>user not found\<close> exactly
  when the store returns a nil record with a nil error; with any error, \<^verbatim>\<open>sql.ErrNoRows\<close>
  included, it is \<^verbatim>\<open>an internal error occurred\<close>. The uniqueness lookups differ: when
  the store's \<^verbatim>\<open>GetByEmail\<close> returns no record and an error that is \<^verbatim>\<open>sql.ErrNoRows\<close>,
  \<^verbatim>\<open>Create\<close> goes on to the store's \<^verbatim>\<open>Create\<close> and \<^verbatim>\<open>UpdateEmail\<close> to the store's \<^verbatim>\<open>Update\<close>,
  and each succeeds exactly when that call does.
\<close>

theorem absence_signal:
  "(store_GetByID (userStore s) (db w) ident = ((found, err), d) \<longrightarrow>
      (snd (fst (UserService_GetByID s ident w)) = Some (errors_New ''user not found'')
         \<longleftrightarrow> found = None \<and> err = None)
      \<and> (fst (UserService_Update s rt ident name_request w)
           = Some (errors_New ''user not found'') \<longleftrightarrow> found = None \<and> err = None)
      \<and> (fst (UserService_UpdatePassword s rt ident password_request w)
           = Some (errors_New ''user not found'') \<longleftrightarrow> found = None \<and> err = None)
      \<and> (fst (UserService_UpdateEmail s rt ident email_request w)
           = Some (errors_New ''user not found'') \<longleftrightarrow> found = None \<and> err = None)
      \<and> (fst (UserService_Delete s ident w)
           = Some (errors_New ''user not found'') \<longleftrightarrow> found = None \<and> err = None)
      \<and> (err \<noteq> None \<longrightarrow>
           snd (fst (UserService_GetByID s ident w))
             = Some (errors_New ''an internal error occurred'')
           \<and> fst (UserService_Update s rt ident name_request w)
             = Some (errors_New ''an internal error occurred'')
           \<and> fst (UserService_UpdatePassword s rt ident password_request w)
             = Some (errors_New ''an internal error occurred'')
           \<and> fst (UserService_UpdateEmail s rt ident email_request w)
             = Some (errors_New ''an internal error occurred'')
           \<and> fst (UserService_Delete s ident w)
             = Some (errors_New ''an internal error occurred'')))
   \<and> (store_GetByEmail (userStore s) (db w) email = ((found, err), d) \<longrightarrow>
      (snd (fst (UserService_GetByEmail s email w)) = Some (errors_New ''user not found'')
         \<longleftrightarrow> found = None \<and> err = None)
      \<and> (err \<noteq> None \<longrightarrow>
           snd (fst (UserService_GetByEmail s email w))
             = Some (errors_New ''an internal error occurred'')))
   \<and> (validateUser user = None \<and>
      bcrypt_GenerateFromPassword rt (Password user) bcrypt_DefaultCost = Inr h \<and>
      store_GetByEmail (userStore s) (db w) (Email user) = ((None, Some e), d) \<and>
      errors_Is e sql_ErrNoRows \<longrightarrow>
        Call_Create ((Create_stamped rt w user)\<lparr>Password := h\<rparr>)
          \<in> set (new_events w (snd (UserService_Create s rt user w)))
        \<and> (fst (fst (UserService_Create s rt user w)) = None
           \<longleftrightarrow> snd (fst (store_Create (userStore s) d
                          ((Create_stamped rt w user)\<lparr>Password := h\<rparr>))) = None))
   \<and> (store_GetByID (userStore s) (db w) ident = ((Some user0, None), d1) \<and>
      UpdateEmailRequest_Email email_request \<noteq> '''' \<and>
      store_GetByEmail (userStore s) d1 (UpdateEmailRequest_Email email_request)
        = ((None, Some e), d2) \<and>
      errors_Is e sql_ErrNoRows \<longrightarrow>
        Call_Update (user0\<lparr>Email := UpdateEmailRequest_Email email_request,
                            UpdatedAt := time_Now rt (ticks w)\<rparr>)
          \<in> set (new_events w (snd (UserService_UpdateEmail s rt ident email_request w)))
        \<and> (fst (UserService_UpdateEmail s rt ident email_request w) = None
           \<longleftrightarrow> fst (store_Update (userStore s) d2
                      (user0\<lparr>Email := UpdateEmailRequest_Email email_request,
                              UpdatedAt := time_Now rt (ticks w)\<rparr>)) = None))"
proof (intro conjI impI)
  assume load: "store_GetByID (userStore s) (db w) ident = ((found, err), d)"
  show "snd (fst (UserService_GetByID s ident w)) = Some (errors_New ''user not found'')
         \<longleftrightarrow> found = None \<and> err = None"
    by (rule GetByID_not_found_iff(1) [OF load])
  show "fst (UserService_Update s rt ident name_request w)
           = Some (errors_New ''user not found'') \<longleftrightarrow> found = None \<and> err = None"
    by (rule Update_not_found_iff(1) [OF load])
  show "fst (UserService_UpdatePassword s rt ident password_request w)
           = Some (errors_New ''user not found'') \<longleftrightarrow> found = None \<and> err = None"
    by (rule UpdatePassword_not_found_iff(1) [OF load])
  show "fst (UserService_UpdateEmail s rt ident email_request w)
           = Some (errors_New ''user not found'') \<longleftrightarrow> found = None \<and> err = None"
    by (rule UpdateEmail_not_found_iff(1) [OF load])
  show "fst (UserService_Delete s ident w)
           = Some (errors_New ''user not found'') \<longleftrightarrow> found = None \<and> err = None"
    by (rule Delete_not_found_iff(1) [OF load])
  assume failed: "err \<noteq> None"
  show "snd (fst (UserService_GetByID s ident w))
          = Some (errors_New ''an internal error occurred'')"
    by (rule GetByID_not_found_iff(2) [OF load failed])
  show "fst (UserService_Update s rt ident name_request w)
          = Some (errors_New ''an internal error occurred'')"
    by (rule Update_not_found_iff(2) [OF load failed])
  show "fst (UserService_UpdatePassword s rt ident password_request w)
          = Some (errors_New ''an internal error occurred'')"
    by (rule UpdatePassword_not_found_iff(2) [OF load failed])
  show "fst (UserService_UpdateEmail s rt ident email_request w)
          = Some (errors_New ''an internal error occurred'')"
    by (rule UpdateEmail_not_found_iff(2) [OF load failed])
  show "fst (UserService_Delete s ident w)
          = Some (errors_New ''an internal error occurred'')"
    by (rule Delete_not_found_iff(2) [OF load failed])
next
  assume look: "store_GetByEmail (userStore s) (db w) email = ((found, err), d)"
  show "snd (fst (UserService_GetByEmail s email w)) = Some (errors_New ''user not found'')
         \<longleftrightarrow> found = None \<and> err = None"
    by (rule GetByEmail_not_found_iff(1) [OF look])
  assume failed: "err \<noteq> None"
  show "snd (fst (UserService_GetByEmail s email w))
          = Some (errors_New ''an internal error occurred'')"
    by (rule GetByEmail_not_found_iff(2) [OF look failed])
next
  let ?rec = "(Create_stamped rt w user)\<lparr>Password := h\<rparr>"
  assume "validateUser user = None \<and>
      bcrypt_GenerateFromPassword rt (Password user) bcrypt_DefaultCost = Inr h \<and>
      store_GetByEmail (userStore s) (db w) (Email user) = ((None, Some e), d) \<and>
      errors_Is e sql_ErrNoRows"
  then have valid: "validateUser user = None"
    and hash: "bcrypt_GenerateFromPassword rt (Password user) bcrypt_DefaultCost = Inr h"
    and look: "store_GetByEmail (userStore s) (db w) (Email user) = ((None, Some e), d)"
    and absent: "lookup_failure (Some e) = None"
    by simp_all
  obtain left failure d' where create:
    "store_Create (userStore s) d ?rec = ((left, failure), d')"
    by (metis prod.exhaust)
  note facts = Create_no_holder [OF valid hash look absent create]
  show "Call_Create ?rec \<in> set (new_events w (snd (UserService_Create s rt user w)))"
    by (simp add: facts(2))
  show "fst (fst (UserService_Create s rt user w)) = None
           \<longleftrightarrow> snd (fst (store_Create (userStore s) d ?rec)) = None"
    by (simp add: facts(1) create split: option.splits)
next
  let ?rec = "user0\<lparr>Email := UpdateEmailRequest_Email email_request,
                      UpdatedAt := time_Now rt (ticks w)\<rparr>"
  assume "store_GetByID (userStore s) (db w) ident = ((Some user0, None), d1) \<and>
      UpdateEmailRequest_Email email_request \<noteq> '''' \<and>
      store_GetByEmail (userStore s) d1 (UpdateEmailRequest_Email email_request)
        = ((None, Some e), d2) \<and>
      errors_Is e sql_ErrNoRows"
  then have load: "store_GetByID (userStore s) (db w) ident = ((Some user0, None), d1)"
    and email: "UpdateEmailRequest_Email email_request \<noteq> ''''"
    and look: "store_GetByEmail (userStore s) d1 (UpdateEmailRequest_Email email_request)
        = ((None, Some e), d2)"
    and absent: "lookup_failure (Some e) = None"
    by simp_all
  obtain failure d3 where update: "store_Update (userStore s) d2 ?rec = (failure, d3)"
    by (metis prod.exhaust)
  note facts = UpdateEmail_no_holder [OF load email look absent update]
  show "Call_Update ?rec
          \<in> set (new_events w (snd (UserService_UpdateEmail s rt ident email_request w)))"
    by (simp add: facts(2))
  show "fst (UserService_UpdateEmail s rt ident email_request w) = None
           \<longleftrightarrow> fst (store_Update (userStore s) d2 ?rec) = None"
    by (simp add: facts(1) update split: option.splits)
qed

text \<open>Stores that signal absence with \<^verbatim>\<open>sql.ErrNoRows\<close>.\<close>

theorem absence_signal_witness:
  "snd (fst (UserService_GetByID
        (NewUserService (MockUserStore_methods
           (no_funcs\<lparr>GetByIDFunc := Some (\<lambda>ident. (None, Some sql_ErrNoRows))\<rparr>)))
        ''1'' world0))
     = Some (errors_New ''an internal error occurred'')
   \<and> fst (UserService_Delete
        (NewUserService (MockUserStore_methods
           (no_funcs\<lparr>GetByIDFunc := Some (\<lambda>ident. (None, Some sql_ErrNoRows))\<rparr>)))
        ''1'' world0)
     = Some (errors_New ''an internal error occurred'')
   \<and> snd (fst (UserService_GetByID (NewUserService (MockUserStore_methods no_funcs))
        ''1'' world0))
     = Some (errors_New ''user not found'')
   \<and> fst (fst (UserService_Create
        (NewUserService (MockUserStore_methods
           (no_funcs\<lparr>GetByEmailFunc := Some (\<lambda>email. (None, Some sql_ErrNoRows))\<rparr>)))
        example_runtime new_john world0)) = None
   \<and> fst (UserService_UpdateEmail
        (NewUserService (MockUserStore_methods
           (no_funcs\<lparr>GetByIDFunc := Some (\<lambda>ident. (Some john, None)),
                      GetByEmailFunc := Some (\<lambda>email. (None, Some sql_ErrNoRows))\<rparr>)))
        example_runtime ''1'' \<lparr>UpdateEmailRequest_Email = ''jd@example.com''\<rparr> world0) = None"
proof -
  let ?no_rows = "NewUserService (MockUserStore_methods
      (no_funcs\<lparr>GetByIDFunc := Some (\<lambda>ident. (None, Some sql_ErrNoRows))\<rparr>))"
  let ?empty = "NewUserService (MockUserStore_methods no_funcs) :: unit UserService"
  let ?no_rows_email = "NewUserService (MockUserStore_methods
      (no_funcs\<lparr>GetByEmailFunc := Some (\<lambda>email. (None, Some sql_ErrNoRows))\<rparr>))"
  let ?john_no_rows = "NewUserService (MockUserStore_methods
      (no_funcs\<lparr>GetByIDFunc := Some (\<lambda>ident. (Some john, None)),
                 GetByEmailFunc := Some (\<lambda>email. (None, Some sql_ErrNoRows))\<rparr>))"
  let ?request = "\<lparr>UpdateEmailRequest_Email = ''jd@example.com''\<rparr>"
  have load_no_rows: "store_GetByID (userStore ?no_rows) (db world0) ''1''
      = ((None, Some sql_ErrNoRows), ())"
    by (simp add: NewUserService_def MockUserStore_methods_def no_funcs_def)
  have load_empty: "store_GetByID (userStore ?empty) (db world0) ''1'' = ((None, None), ())"
    by (simp add: NewUserService_def MockUserStore_methods_def no_funcs_def)
  have hash: "bcrypt_GenerateFromPassword example_runtime (Password new_john) bcrypt_DefaultCost
      = Inr ''$2a$10$password''"
    by (simp add: example_runtime_def new_john_def)
  have look: "store_GetByEmail (userStore ?no_rows_email) (db world0) (Email new_john)
      = ((None, Some sql_ErrNoRows), ())"
    by (simp add: NewUserService_def MockUserStore_methods_def no_funcs_def)
  have load_john: "store_GetByID (userStore ?john_no_rows) (db world0) ''1''
      = ((Some john, None), ())"
    by (simp add: NewUserService_def MockUserStore_methods_def no_funcs_def)
  have look_john: "store_GetByEmail (userStore ?john_no_rows) ()
      (UpdateEmailRequest_Email ?request) = ((None, Some sql_ErrNoRows), ())"
    by (simp add: NewUserService_def MockUserStore_methods_def no_funcs_def)
  have "snd (fst (UserService_GetByID ?no_rows ''1'' world0))
      = Some (errors_New ''an internal error occurred'')"
    and "fst (UserService_Delete ?no_rows ''1'' world0)
      = Some (errors_New ''an internal error occurred'')"
    using absence_signal [where s = ?no_rows and w = world0 and ident = "''1''",
        THEN conjunct1, THEN mp, OF load_no_rows]
    by simp_all
  moreover
  have "snd (fst (UserService_GetByID ?empty ''1'' world0)) = Some (errors_New ''user not found'')"
    using absence_signal [where s = ?empty and w = world0 and ident = "''1''",
        THEN conjunct1, THEN mp, OF load_empty, THEN conjunct1]
    by simp
  moreover
  have "fst (fst (UserService_Create ?no_rows_email example_runtime new_john world0)) = None"
    using absence_signal [where s = ?no_rows_email and w = world0 and rt = example_runtime
        and user = new_john,
        THEN conjunct2, THEN conjunct2, THEN conjunct1, THEN mp,
        OF conjI [OF validateUser_new_john conjI [OF hash conjI [OF look]]]]
    by (simp add: NewUserService_def MockUserStore_methods_def no_funcs_def)
  moreover
  have "fst (UserService_UpdateEmail ?john_no_rows example_runtime ''1'' ?request world0) = None"
    using absence_signal [where s = ?john_no_rows and w = world0 and rt = example_runtime
        and ident = "''1''" and email_request = ?request,
        THEN conjunct2, THEN conjunct2, THEN conjunct2, THEN mp,
        OF conjI [OF load_john conjI [OF _ conjI [OF look_john]]]]
    by (simp add: NewUserService_def MockUserStore_methods_def no_funcs_def)
  ultimately show ?thesis by simp
qed

subsection \<open>The closed set of error messages\<close>

lemma safe_Create:
  "safe_outcome (fst (fst (UserService_Create s rt user w)))
     (new_events w (snd (UserService_Create s rt user w)))"
  using validateUser_messages [of user]
  by (simp add: UserService_Create_def safe_outcome_def new_events_def split_beta Let_def
      split: option.splits sum.splits)

lemma safe_GetByID:
  "safe_outcome (snd (fst (UserService_GetByID s ident w)))
     (new_events w (snd (UserService_GetByID s ident w)))"
  by (simp add: UserService_GetByID_def safe_outcome_def new_events_def split_beta
      split: option.splits)

lemma safe_GetByEmail:
  "safe_outcome (snd (fst (UserService_GetByEmail s email w)))
     (new_events w (snd (UserService_GetByEmail s email w)))"
  by (simp add: UserService_GetByEmail_def safe_outcome_def new_events_def split_beta
      split: option.splits)

lemma safe_Update:
  "safe_outcome (fst (UserService_Update s rt ident request w))
     (new_events w (snd (UserService_Update s rt ident request w)))"
  by (simp add: UserService_Update_def safe_outcome_def new_events_def split_beta Let_def
      split: option.splits split del: if_split)

lemma safe_UpdatePassword:
  "safe_outcome (fst (UserService_UpdatePassword s rt ident request w))
     (new_events w (snd (UserService_UpdatePassword s rt ident request w)))"
  by (simp add: UserService_UpdatePassword_def safe_outcome_def new_events_def split_beta
        Let_def
      split: option.splits sum.splits)

lemma safe_UpdateEmail:
  "safe_outcome (fst (UserService_UpdateEmail s rt ident request w))
     (new_events w (snd (UserService_UpdateEmail s rt ident request w)))"
  by (simp add: UserService_UpdateEmail_def safe_outcome_def new_events_def split_beta
        Let_def
      split: option.splits)

lemma safe_Delete:
  "safe_outcome (fst (UserService_Delete s ident w))
     (new_events w (snd (UserService_Delete s ident w)))"
  by (simp add: UserService_Delete_def safe_outcome_def new_events_def split_beta
      split: option.splits)

text \<open>
  C7. Whatever the input and whatever the store, the clock and the hash do, an error
  returned by \<^verbatim>\<open>Create\<close>, \<^verbatim>\<open>GetByID\<close>, \<^verbatim>\<open>GetByEmail\<close>, \<^verbatim>\<open>Update\<close>, \<^verbatim>\<open>UpdatePassword\<close>,
  \<^verbatim>\<open>UpdateEmail\<close> or \<^verbatim>\<open>Delete\<close> is made of one of the eight fixed messages, and when the
  operation met (and logged) an error of the store or of the hash, what the caller gets
  is \<^verbatim>\<open>an internal error occurred\<close>, not that error.
\<close>

theorem UserService_errors_closed_set:
  "safe_outcome (fst (fst (UserService_Create s rt user w)))
     (new_events w (snd (UserService_Create s rt user w)))
   \<and> safe_outcome (snd (fst (UserService_GetByID s ident w)))
     (new_events w (snd (UserService_GetByID s ident w)))
   \<and> safe_outcome (snd (fst (UserService_GetByEmail s email w)))
     (new_events w (snd (UserService_GetByEmail s email w)))
   \<and> safe_outcome (fst (UserService_Update s rt ident name_request w))
     (new_events w (snd (UserService_Update s rt ident name_request w)))
   \<and> safe_outcome (fst (UserService_UpdatePassword s rt ident password_request w))
     (new_events w (snd (UserService_UpdatePassword s rt ident password_request w)))
   \<and> safe_outcome (fst (UserService_UpdateEmail s rt ident email_request w))
     (new_events w (snd (UserService_UpdateEmail s rt ident email_request w)))
   \<and> safe_outcome (fst (UserService_Delete s ident w))
     (new_events w (snd (UserService_Delete s ident w)))"
  by (intro conjI safe_Create safe_GetByID safe_GetByEmail safe_Update safe_UpdatePassword
      safe_UpdateEmail safe_Delete)

text \<open>The store of \<^verbatim>\<open>TestUserService_Create_ReturnsErrorForFailingToCreateUser\<close>: the
  underlying \<^verbatim>\<open>random error\<close> is logged, and the caller gets the fixed message.\<close>

theorem UserService_errors_closed_set_witness:
  "list_ex is_Slog_Error
     (new_events world0 (snd (UserService_Create
        (NewUserService (MockUserStore_methods
           (no_funcs\<lparr>CreateFunc := Some (\<lambda>user. (user, Some (errors_New ''random error'')))\<rparr>)))
        example_runtime new_john world0)))
   \<and> errors_New ''an internal error occurred'' \<in> errors_New ` set caller_visible_messages
   \<and> fst (fst (UserService_Create
        (NewUserService (MockUserStore_methods
           (no_funcs\<lparr>CreateFunc := Some (\<lambda>user. (user, Some (errors_New ''random error'')))\<rparr>)))
        example_runtime new_john world0))
     = Some (errors_New ''an internal error occurred'')"
proof -
  let ?create_fails = "NewUserService (MockUserStore_methods
      (no_funcs\<lparr>CreateFunc := Some (\<lambda>user. (user, Some (errors_New ''random error'')))\<rparr>))"
  let ?R = "UserService_Create ?create_fails example_runtime new_john world0"
  have hash: "bcrypt_GenerateFromPassword example_runtime (Password new_john) bcrypt_DefaultCost
      = Inr ''$2a$10$password''"
    by (simp add: example_runtime_def new_john_def)
  have free: "store_GetByEmail (userStore ?create_fails) (db world0) (Email new_john)
      = ((None, None), ())"
    by (simp add: NewUserService_def MockUserStore_methods_def no_funcs_def)
  have create: "store_Create (userStore ?create_fails) ()
      ((Create_stamped example_runtime world0 new_john)\<lparr>Password := ''$2a$10$password''\<rparr>)
      = (((Create_stamped example_runtime world0 new_john)\<lparr>Password := ''$2a$10$password''\<rparr>,
          Some (errors_New ''random error'')), ())"
    by (simp add: NewUserService_def MockUserStore_methods_def no_funcs_def)
  have logged: "list_ex is_Slog_Error (new_events world0 (snd ?R))"
    using Create_no_holder(2) [OF validateUser_new_john hash free _ create] by simp
  have safe: "safe_outcome (fst (fst ?R)) (new_events world0 (snd ?R))"
    using UserService_errors_closed_set [where s = ?create_fails and rt = example_runtime
        and user = new_john and w = world0, THEN conjunct1] .
  have "fst (fst ?R) = Some (errors_New ''an internal error occurred'')"
    using safe logged by (simp add: safe_outcome_def)
  moreover
  have "errors_New ''an internal error occurred'' \<in> errors_New ` set caller_visible_messages"
    using safe logged by (simp add: safe_outcome_def)
  ultimately show ?thesis using logged by simp
qed

end
